theory Spec2Isabelle
  imports Complex_Main "HOL-Library.Log_Nat"
begin

section \<open>JavaScript numbers\<close>

text \<open>
  A JavaScript Number is an IEEE 754 binary64 value. The finite ones are modelled by the
  rational they denote; NaN and the infinities are left out (the schema casts reject NaN
  and bound every price by 1000000). Arithmetic is exact arithmetic followed by rounding
  to the nearest binary64 value, ties to even, which \<open>fl\<close> computes: the significand has
  53 bits and the least exponent of the unit in the last place is -1074.
\<close>

type_synonym js_number = rat

definition pow2 :: "int \<Rightarrow> rat" where
  "pow2 e = (if 0 \<le> e then 2 ^ nat e else 1 / 2 ^ nat (- e))"

text \<open>For \<open>x > 0\<close>, \<open>ilog2 x\<close> is the exponent \<open>e\<close> with \<open>2^e \<le> x < 2^(e+1)\<close>.\<close>

definition ilog2 :: "rat \<Rightarrow> int" where
  "ilog2 x = (case quotient_of x of (a, b) \<Rightarrow>
     (let d = bitlen a - bitlen b in if pow2 d \<le> x then d else d - 1))"

definition round_half_even :: "rat \<Rightarrow> int" where
  "round_half_even x =
     (let n = \<lfloor>x\<rfloor>; r = x - of_int n
      in if r < 1 / 2 then n else if 1 / 2 < r then n + 1 else if even n then n else n + 1)"

definition fl :: "rat \<Rightarrow> js_number" where
  "fl x = (if x = 0 then 0
           else let e = max (ilog2 \<bar>x\<bar> - 52) (- 1074)
                in sgn x * of_int (round_half_even (\<bar>x\<bar> / pow2 e)) * pow2 e)"

text \<open>The operators \<open>*\<close> and \<open>/\<close> of the source, and \<open>Math.round\<close> and \<open>Math.floor\<close>.
  \<open>Math.round\<close> yields the nearest integer, a tie going towards plus infinity; both
  \<open>Math\<close> functions are exact.\<close>

definition js_times :: "js_number \<Rightarrow> js_number \<Rightarrow> js_number" where
  "js_times x y = fl (x * y)"

definition js_divide :: "js_number \<Rightarrow> js_number \<Rightarrow> js_number" where
  "js_divide x y = fl (x / y)"

definition Math_round :: "js_number \<Rightarrow> js_number" where
  "Math_round x = of_int \<lfloor>x + 1 / 2\<rfloor>"

definition Math_floor :: "js_number \<Rightarrow> js_number" where
  "Math_floor x = of_int \<lfloor>x\<rfloor>"

text \<open>The Number that a decimal literal denotes: \<open>decimal 199995 3\<close> is \<open>199.995\<close>.\<close>

definition decimal :: "int \<Rightarrow> nat \<Rightarrow> js_number" where
  "decimal m d = fl (of_int m / 10 ^ d)"

section \<open>The Inquiry model (models/Inquiry.js)\<close>

type_synonym objectId = string

text \<open>A Date is its number of milliseconds since the epoch.\<close>

type_synonym js_date = int

record inquiry_response =
  response_message :: string
  price :: "js_number option"
  deliveryTime :: string
  respondedAt :: js_date

text \<open>
  The fields of \<open>inquirySchema\<close>. An optional field that is undefined is \<open>None\<close>.
  \<open>createdAt\<close> comes from the schema option \<open>timestamps\<close>; \<open>updatedAt\<close>, which no
  operation reads, is not modelled.
\<close>

record Inquiry =
  inquiry_id :: objectId
  product :: objectId
  buyer :: objectId
  seller :: objectId
  quantity :: js_number
  message :: string
  status :: string
  buyerContact :: "string option \<times> string option"
  response :: "inquiry_response option"
  expectedPrice :: "js_number option"
  urgency :: string
  createdAt :: js_date

text \<open>The values of the \<open>status\<close> enum and of the \<open>urgency\<close> enum of the schema.\<close>

definition status_enum :: "string list" where
  "status_enum =
     [''pending'', ''responded'', ''accepted'', ''rejected'', ''completed'', ''cancelled'']"

definition urgency_enum :: "string list" where
  "urgency_enum = [''low'', ''medium'', ''high'']"

text \<open>
  The setters of the schema, which rewrite a string when it is assigned to its path:
  \<open>trim\<close> (on \<open>message\<close>, \<open>buyerContact.phone\<close>, \<open>buyerContact.email\<close>, \<open>response.message\<close>
  and \<open>response.deliveryTime\<close>) and \<open>lowercase\<close> (on \<open>buyerContact.email\<close>).
\<close>

definition is_space :: "char \<Rightarrow> bool" where
  "is_space c \<longleftrightarrow> c \<in> set [CHR '' '', CHR 0x09, CHR 0x0A, CHR 0x0B, CHR 0x0C, CHR 0x0D]"

definition trim :: "string \<Rightarrow> string" where
  "trim s = rev (dropWhile is_space (rev (dropWhile is_space s)))"

definition toLowerCase :: "string \<Rightarrow> string" where
  "toLowerCase s =
     map (\<lambda>c. if c \<in> set ''ABCDEFGHIJKLMNOPQRSTUVWXYZ''
              then char_of (of_char c + (32 :: nat)) else c) s"

text \<open>
  The patterns of the \<open>match\<close> validators: \<open>/^1[3-9]\d{9}$|^$/\<close> of \<open>buyerContact.phone\<close>
  and \<open>/^[^\s@]+@[^\s@]+\.[^\s@]+$/\<close> of \<open>buyerContact.email\<close>. The second holds of a string
  without white space that has one \<open>@\<close>, not at its start, and after it a dot that is
  neither the first nor the last character.
\<close>

definition is_digit :: "char \<Rightarrow> bool" where
  "is_digit c \<longleftrightarrow> c \<in> set ''0123456789''"

definition phone_pattern :: "string \<Rightarrow> bool" where
  "phone_pattern s \<longleftrightarrow>
     s = [] \<or>
     (case s of
        c1 # c2 # cs \<Rightarrow>
          c1 = CHR ''1'' \<and> c2 \<in> set ''3456789'' \<and> length cs = 9 \<and> list_all is_digit cs
      | _ \<Rightarrow> False)"

definition email_pattern :: "string \<Rightarrow> bool" where
  "email_pattern s \<longleftrightarrow>
     list_all (\<lambda>c. \<not> is_space c) s \<and>
     (case dropWhile (\<lambda>c. c \<noteq> CHR ''@'') s of
        [] \<Rightarrow> False
      | c # d \<Rightarrow>
          takeWhile (\<lambda>c. c \<noteq> CHR ''@'') s \<noteq> [] \<and> CHR ''@'' \<notin> set d \<and>
          list_ex (\<lambda>i. d ! i = CHR ''.'') [1 ..< length d - 1])"

text \<open>
  The validators of the schema, which \<open>save\<close> and \<open>create\<close> run on every path of the
  document before the \<open>pre('save')\<close> hook. \<open>validate\<close> gives the paths that fail, one entry
  for a path whatever the number of its validators that fail. A validator other than
  \<open>required\<close> is not run on an undefined value, and a \<open>match\<close> validator passes the empty
  string. The references \<open>product\<close>, \<open>buyer\<close> and \<open>seller\<close> and the quantity are defined
  by their types here, so their \<open>required\<close> validators pass. The custom validator of
  \<open>quantity\<close> compares \<open>this.product.stock\<close> with the quantity: \<open>this.product\<close> is an
  ObjectId in every document that is saved (no operation that saves populates it), its
  \<open>stock\<close> is undefined, the comparison is false and the validator passes.
\<close>

definition rule :: "bool \<Rightarrow> string \<Rightarrow> string list" where
  "rule ok field = (if ok then [] else [field])"

definition validate :: "Inquiry \<Rightarrow> string list" where
  "validate this =
     rule (1 \<le> quantity this) ''quantity'' @
     rule (message this \<noteq> [] \<and> 10 \<le> length (message this) \<and> length (message this) \<le> 500)
       ''message'' @
     rule (status this \<in> set status_enum) ''status'' @
     (case fst (buyerContact this) of
        None \<Rightarrow> []
      | Some p \<Rightarrow> rule (phone_pattern p) ''buyerContact.phone'') @
     (case snd (buyerContact this) of
        None \<Rightarrow> []
      | Some e \<Rightarrow> rule (e = [] \<or> email_pattern e) ''buyerContact.email'') @
     (case response this of
        None \<Rightarrow> []
      | Some r \<Rightarrow>
          rule (length (response_message r) \<le> 1000) ''response.message'' @
          (case price r of
             None \<Rightarrow> []
           | Some p \<Rightarrow> rule (0 \<le> p \<and> p \<le> 1000000) ''response.price'') @
          rule (length (deliveryTime r) \<le> 100) ''response.deliveryTime'') @
     (case expectedPrice this of
        None \<Rightarrow> []
      | Some p \<Rightarrow> rule (0 \<le> p \<and> p \<le> 1000000) ''expectedPrice'') @
     rule (urgency this \<in> set urgency_enum) ''urgency''"

text \<open>
  The \<open>pre('save')\<close> hook. A guard \<open>if (x)\<close> on a number holds when the number is defined
  and not zero. \<open>round_price\<close> is the expression \<open>Math.round(p * 100) / 100\<close>, which the
  hook has twice.
\<close>

definition round_price :: "js_number \<Rightarrow> js_number" where
  "round_price p = js_divide (Math_round (js_times p 100)) 100"

definition pre_save :: "Inquiry \<Rightarrow> Inquiry" where
  "pre_save this =
     (let this1 =
            (case expectedPrice this of
               Some p \<Rightarrow> if p \<noteq> 0 then this\<lparr>expectedPrice := Some (round_price p)\<rparr> else this
             | None \<Rightarrow> this);
          this2 =
            (case response this1 of
               Some r \<Rightarrow>
                 (case price r of
                    Some p \<Rightarrow>
                      if p \<noteq> 0 then this1\<lparr>response := Some (r\<lparr>price := Some (round_price p)\<rparr>)\<rparr>
                      else this1
                  | None \<Rightarrow> this1)
             | None \<Rightarrow> this1)
      in if quantity this2 \<noteq> 0 then this2\<lparr>quantity := Math_floor (quantity this2)\<rparr>
         else this2)"

text \<open>
  The errors the operations on an inquiry throw. \<open>ValidationError paths\<close> is the error of
  \<open>save\<close> and \<open>create\<close> when validators fail, with the paths that failed.
  \<open>AlreadyResponded\<close> is the \<open>Error\<close> of \<open>respondToInquiry\<close> (its message says that the
  inquiry has been answered and cannot be answered again); \<open>InvalidTransition from to\<close>
  is the \<open>Error\<close> of \<open>updateStatus\<close>, whose message names both states; \<open>TypeError\<close> is
  what \<open>validTransitions[this.status].includes\<close> raises when \<open>this.status\<close> is no key of
  the table.
\<close>

datatype error =
    AlreadyResponded
  | InvalidTransition string string
  | TypeError
  | ValidationError "string list"

text \<open>
  \<open>save\<close> validates the document, then runs the hook on it and writes the result: it
  yields the error (\<open>Inl\<close>) or the document written (\<open>Inr\<close>). The write itself is taken
  to succeed: an error raised inside the store is not a branch of this model.
\<close>

definition save :: "Inquiry \<Rightarrow> error + Inquiry" where
  "save this =
     (if validate this = [] then Inr (pre_save this) else Inl (ValidationError (validate this)))"

text \<open>
  An instance method mutates \<open>this\<close>: it is a function from the document to the error it
  throws, if any, and the document afterwards. When \<open>save\<close> throws, the assignments
  made before it stay in the document in memory, and nothing is written.
\<close>

record responseData =
  rd_message :: string
  rd_price :: "js_number option"
  rd_deliveryTime :: string

definition respondToInquiry :: "js_date \<Rightarrow> responseData \<Rightarrow> Inquiry \<Rightarrow> error option \<times> Inquiry" where
  "respondToInquiry now rd this =
     (if status this \<noteq> ''pending'' then (Some AlreadyResponded, this)
      else
        (let this' = this\<lparr>status := ''responded'',
                          response := Some \<lparr>response_message = trim (rd_message rd),
                                            price = rd_price rd,
                                            deliveryTime = trim (rd_deliveryTime rd),
                                            respondedAt = now\<rparr>\<rparr>
         in case save this' of
              Inl e \<Rightarrow> (Some e, this')
            | Inr saved \<Rightarrow> (None, saved)))"

definition validTransitions :: "(string \<times> string list) list" where
  "validTransitions =
     [(''pending'', [''responded'', ''cancelled'']),
      (''responded'', [''accepted'', ''rejected'', ''completed'']),
      (''accepted'', [''completed'', ''cancelled'']),
      (''rejected'', [''cancelled'']),
      (''completed'', []),
      (''cancelled'', [])]"

definition updateStatus :: "string \<Rightarrow> Inquiry \<Rightarrow> error option \<times> Inquiry" where
  "updateStatus newStatus this =
     (case map_of validTransitions (status this) of
        None \<Rightarrow> (Some TypeError, this)
      | Some allowed \<Rightarrow>
          if newStatus \<notin> set allowed
          then (Some (InvalidTransition (status this) newStatus), this)
          else
            (let this' = this\<lparr>status := newStatus\<rparr>
             in case save this' of
                  Inl e \<Rightarrow> (Some e, this')
                | Inr saved \<Rightarrow> (None, saved)))"

text \<open>The transition table as section 4.1 of the specification writes it.\<close>

definition spec_transition :: "string \<Rightarrow> string \<Rightarrow> bool" where
  "spec_transition s t \<longleftrightarrow>
     s = ''pending'' \<and> (t = ''responded'' \<or> t = ''cancelled'') \<or>
     s = ''responded'' \<and> (t = ''accepted'' \<or> t = ''rejected'' \<or> t = ''completed'') \<or>
     s = ''accepted'' \<and> (t = ''completed'' \<or> t = ''cancelled'') \<or>
     s = ''rejected'' \<and> t = ''cancelled''"

section \<open>The inquiry routes (routes/inquiries.js)\<close>

text \<open>
  The documents the handlers read. \<open>product_seller\<close> is the id of the product's seller:
  \<open>populate('seller')\<close> is taken to resolve, and \<open>product.seller._id\<close> is that id.
  A \<open>User\<close> is \<open>req.user\<close>, the document the authentication middleware attached.
\<close>

record Product =
  product_id :: objectId
  product_name :: string
  product_price :: js_number
  product_seller :: objectId
  stock :: js_number
  isActive :: bool

record User =
  user_id :: objectId
  phone :: "string option"
  email :: "string option"

record store =
  products :: "Product list"
  inquiries :: "Inquiry list"

text \<open>
  The JSON bodies of the responses. Every error body is \<open>{status: 'error', message}\<close>;
  the constructor stands for the message: the product does not exist or is off the
  shelf (\<open>E_ProductNotFound\<close>), the stock is insufficient, with the current stock
  (\<open>E_InsufficientStock\<close>), one cannot inquire about one's own product
  (\<open>E_SelfInquiryForbidden\<close>), the inquiry id is malformed (\<open>E_InvalidIdFormat\<close>), the
  inquiry does not exist or the caller has no right on it (\<open>E_InquiryNotFound\<close>), the
  inquiry has been answered already (\<open>E_AlreadyResponded\<close>), creating the inquiry
  failed (\<open>E_CreateFailed\<close>) and answering it failed (\<open>E_RespondFailed\<close>), the two
  messages of the \<open>catch\<close> branches. \<open>ValidationErrors\<close> is the body of
  \<open>handleValidationErrors\<close>, with the field of every rule that failed.
\<close>

datatype message_text =
    E_ProductNotFound
  | E_InsufficientStock js_number
  | E_SelfInquiryForbidden
  | E_InvalidIdFormat
  | E_InquiryNotFound
  | E_AlreadyResponded
  | E_CreateFailed
  | E_RespondFailed
  | E_CsrfMissing
  | E_CsrfInvalid

datatype body = ErrorBody message_text | ValidationErrors "string list" | InquiryBody Inquiry

datatype http_response = Response nat body

record create_body =
  cb_productId :: string
  cb_quantity :: js_number
  cb_message :: string
  cb_expectedPrice :: "js_number option"

record respond_body =
  rb_message :: string
  rb_price :: js_number
  rb_deliveryTime :: string

text \<open>The pattern \<open>/^[0-9a-fA-F]{24}$/\<close>.\<close>

definition is_hex :: "char \<Rightarrow> bool" where
  "is_hex c \<longleftrightarrow> c \<in> set ''0123456789abcdefABCDEF''"

definition is_hex24 :: "string \<Rightarrow> bool" where
  "is_hex24 s \<longleftrightarrow> length s = 24 \<and> list_all is_hex s"

text \<open>
  The validation chains. Each rule that fails adds an entry with its field; the
  sanitizer \<open>trim()\<close> at the end of a chain rewrites the field of the body, after the
  rules have read it. A body field that is not of the type of its record field (a
  quantity that is no number, say) fails its rule as well. \<open>isInt\<close> reads the number as
  it prints: it holds of an integer that prints without an exponent, that is, one below
  \<open>10^21\<close> in size.
\<close>

definition isInt :: "js_number \<Rightarrow> bool" where
  "isInt x \<longleftrightarrow> of_int \<lfloor>x\<rfloor> = x \<and> \<bar>x\<bar> < 10 ^ 21"

definition createInquiryValidation :: "create_body \<Rightarrow> string list \<times> create_body" where
  "createInquiryValidation b =
     (rule (cb_productId b \<noteq> []) ''productId'' @
      rule (is_hex24 (cb_productId b)) ''productId'' @
      rule (isInt (cb_quantity b) \<and> 1 \<le> cb_quantity b) ''quantity'' @
      rule (cb_message b \<noteq> []) ''message'' @
      rule (10 \<le> length (cb_message b) \<and> length (cb_message b) \<le> 500) ''message'' @
      (case cb_expectedPrice b of
         None \<Rightarrow> []
       | Some p \<Rightarrow> rule (0 \<le> p \<and> p \<le> 1000000) ''expectedPrice''),
      b\<lparr>cb_message := trim (cb_message b)\<rparr>)"

definition respondInquiryValidation :: "respond_body \<Rightarrow> string list \<times> respond_body" where
  "respondInquiryValidation b =
     (rule (rb_message b \<noteq> []) ''message'' @
      rule (10 \<le> length (rb_message b) \<and> length (rb_message b) \<le> 1000) ''message'' @
      rule (0 \<le> rb_price b \<and> rb_price b \<le> 1000000) ''price'' @
      rule (rb_deliveryTime b \<noteq> []) ''deliveryTime'' @
      rule (length (rb_deliveryTime b) \<le> 100) ''deliveryTime'',
      b\<lparr>rb_message := trim (rb_message b), rb_deliveryTime := trim (rb_deliveryTime b)\<rparr>)"

text \<open>
  \<open>Inquiry.create\<close>: the document gets the schema defaults (\<open>status\<close> is \<open>'pending'\<close>,
  \<open>urgency\<close> is \<open>'medium'\<close>), the setters of \<open>message\<close> and of the buyer's contact, the
  creation time and a fresh \<open>_id\<close>, and is saved; \<open>create\<close> throws what \<open>save\<close> throws.
\<close>

definition Inquiry_create ::
  "js_date \<Rightarrow> objectId \<Rightarrow> objectId \<Rightarrow> objectId \<Rightarrow> objectId \<Rightarrow> js_number \<Rightarrow> string \<Rightarrow>
     js_number option \<Rightarrow> string option \<times> string option \<Rightarrow> error + Inquiry" where
  "Inquiry_create now new_id product_v buyer_v seller_v quantity_v message_v expectedPrice_v
       buyerContact_v =
     save \<lparr>inquiry_id = new_id, product = product_v, buyer = buyer_v, seller = seller_v,
           quantity = quantity_v, message = trim message_v, status = ''pending'',
           buyerContact = (map_option trim (fst buyerContact_v),
                           map_option (\<lambda>e. toLowerCase (trim e)) (snd buyerContact_v)),
           response = None,
           expectedPrice = expectedPrice_v, urgency = ''medium'', createdAt = now\<rparr>"

text \<open>\<open>Product.findOne({_id: productId, isActive: true})\<close>.\<close>

definition Product_findOne :: "store \<Rightarrow> objectId \<Rightarrow> Product option" where
  "Product_findOne s productId =
     find (\<lambda>p. product_id p = productId \<and> isActive p) (products s)"

text \<open>\<open>Inquiry.findOne({_id: id, seller: sellerId})\<close>.\<close>

definition Inquiry_findOne :: "store \<Rightarrow> objectId \<Rightarrow> objectId \<Rightarrow> Inquiry option" where
  "Inquiry_findOne s inquiryId sellerId =
     find (\<lambda>i. inquiry_id i = inquiryId \<and> seller i = sellerId) (inquiries s)"

text \<open>Saving a loaded document writes it over the stored document with its \<open>_id\<close>.\<close>

primrec write_back :: "Inquiry \<Rightarrow> Inquiry list \<Rightarrow> Inquiry list" where
  "write_back d [] = []"
| "write_back d (x # xs) = (if inquiry_id x = inquiry_id d then d # xs else x # write_back d xs)"

text \<open>
  \<open>POST /\<close>: the validation chain, \<open>handleValidationErrors\<close>, then the handler. The
  arguments \<open>now\<close> and \<open>new_id\<close> are the clock and the id the store generates. The
  request is one that \<open>auth\<close> and \<open>apiLimiter\<close> have let through, with \<open>req.user\<close> set.
  The \<open>catch\<close> branch of the handler answers 500 to the error that \<open>Inquiry.create\<close>
  throws; nothing has been written then.
\<close>

definition create_handler ::
  "js_date \<Rightarrow> objectId \<Rightarrow> User \<Rightarrow> create_body \<Rightarrow> store \<Rightarrow> http_response \<times> store" where
  "create_handler now new_id user b s =
     (case Product_findOne s (cb_productId b) of
        None \<Rightarrow> (Response 404 (ErrorBody E_ProductNotFound), s)
      | Some product_v \<Rightarrow>
          if stock product_v < cb_quantity b
          then (Response 400 (ErrorBody (E_InsufficientStock (stock product_v))), s)
          else if product_seller product_v = user_id user
          then (Response 400 (ErrorBody E_SelfInquiryForbidden), s)
          else
            (case Inquiry_create now new_id (cb_productId b) (user_id user)
                    (product_seller product_v) (cb_quantity b) (cb_message b)
                    (cb_expectedPrice b) (phone user, email user) of
               Inl e \<Rightarrow> (Response 500 (ErrorBody E_CreateFailed), s)
             | Inr inquiry \<Rightarrow>
                 (Response 201 (InquiryBody inquiry), s\<lparr>inquiries := inquiries s @ [inquiry]\<rparr>)))"

definition post_inquiry ::
  "js_date \<Rightarrow> objectId \<Rightarrow> User \<Rightarrow> create_body \<Rightarrow> store \<Rightarrow> http_response \<times> store" where
  "post_inquiry now new_id user b s =
     (case createInquiryValidation b of
        (errors, b') \<Rightarrow>
          if errors \<noteq> [] then (Response 400 (ValidationErrors errors), s)
          else create_handler now new_id user b' s)"

text \<open>
  \<open>PATCH /:id/respond\<close>, in the same way. The assignment to \<open>inquiry.response\<close> runs the
  setters of its paths. The \<open>catch\<close> branch answers 500 to the error that \<open>save\<close> throws.
\<close>

definition respond_handler ::
  "js_date \<Rightarrow> User \<Rightarrow> string \<Rightarrow> respond_body \<Rightarrow> store \<Rightarrow> http_response \<times> store" where
  "respond_handler now user id_param b s =
     (if \<not> is_hex24 id_param then (Response 400 (ErrorBody E_InvalidIdFormat), s)
      else
        (case Inquiry_findOne s id_param (user_id user) of
           None \<Rightarrow> (Response 404 (ErrorBody E_InquiryNotFound), s)
         | Some inquiry \<Rightarrow>
             if status inquiry \<noteq> ''pending''
             then (Response 400 (ErrorBody E_AlreadyResponded), s)
             else
               (case save (inquiry\<lparr>status := ''responded'',
                                   response := Some \<lparr>response_message = trim (rb_message b),
                                                     price = Some (rb_price b),
                                                     deliveryTime = trim (rb_deliveryTime b),
                                                     respondedAt = now\<rparr>\<rparr>) of
                  Inl e \<Rightarrow> (Response 500 (ErrorBody E_RespondFailed), s)
                | Inr inquiry' \<Rightarrow>
                    (Response 200 (InquiryBody inquiry'),
                     s\<lparr>inquiries := write_back inquiry' (inquiries s)\<rparr>))))"

definition patch_respond ::
  "js_date \<Rightarrow> User \<Rightarrow> string \<Rightarrow> respond_body \<Rightarrow> store \<Rightarrow> http_response \<times> store" where
  "patch_respond now user id_param b s =
     (case respondInquiryValidation b of
        (errors, b') \<Rightarrow>
          if errors \<noteq> [] then (Response 400 (ValidationErrors errors), s)
          else respond_handler now user id_param b' s)"

text \<open>The status code of a response.\<close>

fun status_code :: "http_response \<Rightarrow> nat" where
  "status_code (Response n b) = n"

section \<open>The CSRF check (middleware/security.js) and the routes it guards (server.js)\<close>

text \<open>
  What \<open>validateCsrf\<close> reads of a request: the method, \<open>req.path\<close>, the two headers and
  the body field that may carry the token, and the secret of the session, which
  \<open>csrfMiddleware\<close> has set before any route runs.
\<close>

record request =
  req_method :: string
  req_path :: string
  header_x_csrf_token :: "string option"
  header_x_xsrf_token :: "string option"
  body_csrf :: "string option"
  session_csrfSecret :: string

text \<open>A string is falsy when it is undefined or empty; \<open>a || b\<close> is \<open>a\<close> unless \<open>a\<close> is falsy.\<close>

definition falsy :: "string option \<Rightarrow> bool" where
  "falsy t \<longleftrightarrow> t = None \<or> t = Some []"

definition js_or :: "string option \<Rightarrow> string option \<Rightarrow> string option" where
  "js_or a b = (if falsy a then b else a)"

definition startsWith :: "string \<Rightarrow> string \<Rightarrow> bool" where
  "startsWith s p \<longleftrightarrow> take (length p) s = p"

datatype middleware_result = Next | Respond http_response

text \<open>
  \<open>req.validateCsrf\<close>, which \<open>csrfMiddleware\<close> attaches. \<open>verify\<close> stands for
  \<open>tokens.verify\<close> of the package \<open>csrf\<close>, which is not part of the repository: it is a
  parameter, false where the package throws.
\<close>

definition req_validateCsrf :: "(string \<Rightarrow> string \<Rightarrow> bool) \<Rightarrow> request \<Rightarrow> string option \<Rightarrow> bool" where
  "req_validateCsrf verify req token =
     (case token of
        None \<Rightarrow> False
      | Some t \<Rightarrow> if t = [] then False else verify (session_csrfSecret req) t)"

definition skipPaths :: "string list" where
  "skipPaths =
     [''/auth/register'', ''/auth/login'', ''/api/health'', ''/api/csrf-token'',
      ''/api/debug/session'']"

definition validateCsrf :: "(string \<Rightarrow> string \<Rightarrow> bool) \<Rightarrow> request \<Rightarrow> middleware_result" where
  "validateCsrf verify req =
     (if req_method req \<in> set [''GET'', ''HEAD'', ''OPTIONS''] then Next
      else if req_path req \<in> set skipPaths then Next
      else if startsWith (req_path req) ''/auth/'' \<and> req_path req \<noteq> ''/auth/logout'' then Next
      else
        (let token = js_or (js_or (header_x_csrf_token req) (header_x_xsrf_token req))
                       (body_csrf req)
         in if falsy token then Respond (Response 403 (ErrorBody E_CsrfMissing))
            else if \<not> req_validateCsrf verify req token
            then Respond (Response 403 (ErrorBody E_CsrfInvalid))
            else Next))"

text \<open>
  The route mounting of server.js: each \<open>app.use(path, ...)\<close> with its middleware, in
  the order of the file.
\<close>

datatype middleware = Auth | AuthLimiter | ApiLimiter | ValidateCsrf | Router string

definition mounts :: "(string \<times> middleware list) list" where
  "mounts =
     [(''/auth'', [AuthLimiter, ValidateCsrf, Router ''auth'']),
      (''/api/products'', [Auth, ApiLimiter, Router ''products'']),
      (''/api/users'', [Auth, ApiLimiter, ValidateCsrf, Router ''users'']),
      (''/api/inquiries'', [Auth, ApiLimiter, Router ''inquiries''])]"

text \<open>
  The middleware the routers put before their own handlers. Every route of the
  inquiries router and of the products router has \<open>apiLimiter\<close> (the validation chains,
  which do not look at the token, are part of the handlers above); every route of the
  users router has \<open>auth\<close>; the auth router has \<open>authLimiter\<close> and \<open>validateCsrf\<close> on
  \<open>/register\<close> and \<open>/login\<close>, and \<open>validateCsrf\<close> on \<open>/logout\<close>.
\<close>

definition route_middleware :: "string \<Rightarrow> string \<Rightarrow> middleware list" where
  "route_middleware router path =
     (if router = ''inquiries'' \<or> router = ''products'' then [ApiLimiter]
      else if router = ''users'' then [Auth]
      else if router = ''auth'' \<and> (path = ''/register'' \<or> path = ''/login'')
      then [AuthLimiter, ValidateCsrf]
      else if router = ''auth'' \<and> path = ''/logout'' then [ValidateCsrf]
      else [])"

text \<open>
  A path is under a mount point when it starts with it and goes on with a slash or
  ends there; inside the mount, \<open>req.path\<close> is the rest of the path.
\<close>

definition mounted_at :: "string \<Rightarrow> string \<Rightarrow> bool" where
  "mounted_at mount_point path \<longleftrightarrow>
     startsWith path mount_point \<and>
     (case drop (length mount_point) path of [] \<Rightarrow> True | c # cs \<Rightarrow> c = CHR ''/'')"

definition path_in_mount :: "string \<Rightarrow> string \<Rightarrow> string" where
  "path_in_mount mount_point path =
     (case drop (length mount_point) path of [] \<Rightarrow> ''/'' | c # cs \<Rightarrow> c # cs)"

text \<open>
  The CSRF checks a request meets on its way to a handler. The request is taken to
  pass \<open>auth\<close> and the limiters (it is authenticated and within its rate).
  \<open>run_middleware\<close> runs the middleware of a mount up to the first response; a router
  goes on with the middleware of the route (\<open>run_route\<close>).
\<close>

fun run_route ::
  "(string \<Rightarrow> string \<Rightarrow> bool) \<Rightarrow> request \<Rightarrow> middleware list \<Rightarrow> middleware_result" where
  "run_route verify req [] = Next"
| "run_route verify req (ValidateCsrf # ms) =
     (case validateCsrf verify req of
        Next \<Rightarrow> run_route verify req ms
      | Respond r \<Rightarrow> Respond r)"
| "run_route verify req (m # ms) = run_route verify req ms"

fun run_middleware ::
  "(string \<Rightarrow> string \<Rightarrow> bool) \<Rightarrow> request \<Rightarrow> middleware list \<Rightarrow> middleware_result" where
  "run_middleware verify req [] = Next"
| "run_middleware verify req (ValidateCsrf # ms) =
     (case validateCsrf verify req of
        Next \<Rightarrow> run_middleware verify req ms
      | Respond r \<Rightarrow> Respond r)"
| "run_middleware verify req (Router name # ms) =
     run_route verify req (route_middleware name (req_path req))"
| "run_middleware verify req (m # ms) = run_middleware verify req ms"

definition app_csrf :: "(string \<Rightarrow> string \<Rightarrow> bool) \<Rightarrow> request \<Rightarrow> middleware_result" where
  "app_csrf verify req =
     (case find (\<lambda>(mount_point, ms). mounted_at mount_point (req_path req)) mounts of
        None \<Rightarrow> Next
      | Some (mount_point, ms) \<Rightarrow>
          run_middleware verify (req\<lparr>req_path := path_in_mount mount_point (req_path req)\<rparr>) ms)"

section \<open>The rate limiters (middleware/security.js) and where they are mounted\<close>

text \<open>
  The options of \<open>authLimiter\<close> and \<open>apiLimiter\<close>, as security.js gives them to
  \<open>rateLimit\<close>.
\<close>

record limiter_options =
  windowMs :: int
  limit_max :: nat
  skipSuccessfulRequests :: bool

definition authLimiter :: limiter_options where
  "authLimiter = \<lparr>windowMs = 15 * 60 * 1000, limit_max = 10, skipSuccessfulRequests = True\<rparr>"

definition apiLimiter :: limiter_options where
  "apiLimiter = \<lparr>windowMs = 15 * 60 * 1000, limit_max = 100, skipSuccessfulRequests = False\<rparr>"

text \<open>
  Modelled from the spec: the limiter that \<open>rateLimit\<close> builds (the package
  express-rate-limit is not in the repository; security.js only configures it and
  server.js and the routers only mount it). As section 4.4 has it, a limiter keeps a
  count per client and window; here one client is followed. Each pass of a request
  through the middleware adds one hit, after starting a new window when the old one has
  expired; a hit beyond the limit is answered 429 and the request goes no further.
  With \<open>skipSuccessfulRequests\<close>, a pass takes its hit back when the response is a
  success.
\<close>

record counter =
  hits :: nat
  resetTime :: int

definition hit :: "limiter_options \<Rightarrow> int \<Rightarrow> counter \<Rightarrow> bool \<times> counter" where
  "hit l now c =
     (let c1 = (if resetTime c \<le> now then \<lparr>hits = 0, resetTime = now + windowMs l\<rparr> else c);
          c2 = c1\<lparr>hits := hits c1 + 1\<rparr>
      in (hits c2 \<le> limit_max l, c2))"

text \<open>
  Modelled from the spec: a request meets the limiter once for every time the limiter
  stands on its way, and a 429 ends the request. \<open>passes\<close> runs that many passes, up to
  the first 429, and yields whether the request was admitted and how many passes it
  made.
\<close>

fun passes :: "limiter_options \<Rightarrow> int \<Rightarrow> nat \<Rightarrow> counter \<Rightarrow> (bool \<times> nat) \<times> counter" where
  "passes l now 0 c = ((True, 0), c)"
| "passes l now (Suc k) c =
     (case hit l now c of
        (False, c') \<Rightarrow> ((False, 1), c')
      | (True, c') \<Rightarrow>
          (case passes l now k c' of ((ok, n), c'') \<Rightarrow> ((ok, Suc n), c'')))"

text \<open>
  Modelled from the spec: one request at time \<open>now\<close> that meets the limiter \<open>k\<close> times and
  whose handler, when reached, answers with a success or not; the result says whether
  the limiter admitted it. \<open>limited_requests\<close> runs the requests of one client in their
  order.
\<close>

definition limited_request ::
  "limiter_options \<Rightarrow> nat \<Rightarrow> int \<times> bool \<Rightarrow> counter \<Rightarrow> bool \<times> counter" where
  "limited_request l k r c =
     (case passes l (fst r) k c of
        ((ok, n), c') \<Rightarrow>
          (ok, if skipSuccessfulRequests l \<and> ok \<and> snd r then c'\<lparr>hits := hits c' - n\<rparr> else c'))"

fun limited_requests ::
  "limiter_options \<Rightarrow> nat \<Rightarrow> (int \<times> bool) list \<Rightarrow> counter \<Rightarrow> bool list" where
  "limited_requests l k [] c = []"
| "limited_requests l k (r # rs) c =
     (case limited_request l k r c of (ok, c') \<Rightarrow> ok # limited_requests l k rs c')"

text \<open>
  All the middleware on the way of a path, from server.js and the router: that of the
  mount, and in the place of the router that of the route.
\<close>

definition middleware_on_path :: "string \<Rightarrow> middleware list" where
  "middleware_on_path path =
     (case find (\<lambda>(mount_point, ms). mounted_at mount_point path) mounts of
        None \<Rightarrow> []
      | Some (mount_point, ms) \<Rightarrow>
          concat (map (\<lambda>m. case m of
                             Router name \<Rightarrow> route_middleware name (path_in_mount mount_point path)
                           | _ \<Rightarrow> [m]) ms))"

section \<open>Example data\<close>

text \<open>
  The documents of the end-to-end scenarios of the specification: a product with stock
  10, a buyer who is not its seller, the inquiry for 5 pieces, and the seller's answer.
\<close>

definition ex_seller :: User where
  "ex_seller = \<lparr>user_id = ''64b7f0c2a1d3e4f5a6b7c8d3'', phone = None,
                 email = Some ''seller@example.com''\<rparr>"

definition ex_buyer :: User where
  "ex_buyer = \<lparr>user_id = ''64b7f0c2a1d3e4f5a6b7c8d2'', phone = Some ''13800000000'',
                email = Some ''buyer@example.com''\<rparr>"

definition ex_product :: Product where
  "ex_product = \<lparr>product_id = ''64b7f0c2a1d3e4f5a6b7c8d1'', product_name = ''bearing 6204'',
                  product_price = 200, product_seller = ''64b7f0c2a1d3e4f5a6b7c8d3'',
                  stock = 10, isActive = True\<rparr>"

definition ex_create_body :: create_body where
  "ex_create_body = \<lparr>cb_productId = ''64b7f0c2a1d3e4f5a6b7c8d1'', cb_quantity = 5,
                      cb_message = ''need these by Friday for repair job'',
                      cb_expectedPrice = None\<rparr>"

definition ex_inquiry :: Inquiry where
  "ex_inquiry = \<lparr>inquiry_id = ''64b7f0c2a1d3e4f5a6b7c8d9'',
                  product = ''64b7f0c2a1d3e4f5a6b7c8d1'',
                  buyer = ''64b7f0c2a1d3e4f5a6b7c8d2'',
                  seller = ''64b7f0c2a1d3e4f5a6b7c8d3'',
                  quantity = 5, message = ''need these by Friday for repair job'',
                  status = ''pending'',
                  buyerContact = (Some ''13800000000'', Some ''buyer@example.com''),
                  response = None, expectedPrice = None, urgency = ''medium'',
                  createdAt = 1000\<rparr>"

definition ex_store0 :: store where
  "ex_store0 = \<lparr>products = [ex_product], inquiries = []\<rparr>"

definition ex_store1 :: store where
  "ex_store1 = \<lparr>products = [ex_product], inquiries = [ex_inquiry]\<rparr>"

definition ex_respond_body :: respond_body where
  "ex_respond_body = \<lparr>rb_message = ''Can deliver in 3 days at this rate'',
                       rb_price = decimal 199995 3, rb_deliveryTime = ''3 days''\<rparr>"

definition ex_responseData :: responseData where
  "ex_responseData = \<lparr>rd_message = ''Can deliver in 3 days at this rate'',
                       rd_price = Some (decimal 199995 3), rd_deliveryTime = ''3 days''\<rparr>"

text \<open>
  A request to create an inquiry that carries no CSRF token, and a request without a
  token to the profile route of the users router.
\<close>

definition ex_post_inquiry_request :: request where
  "ex_post_inquiry_request =
     \<lparr>req_method = ''POST'', req_path = ''/api/inquiries'', header_x_csrf_token = None,
      header_x_xsrf_token = None, body_csrf = None,
      session_csrfSecret = ''kX2vQ9pLm3RtY7uZ1aBcD4eF''\<rparr>"

definition ex_patch_profile_request :: request where
  "ex_patch_profile_request =
     \<lparr>req_method = ''PATCH'', req_path = ''/api/users/profile'', header_x_csrf_token = None,
      header_x_xsrf_token = None, body_csrf = None,
      session_csrfSecret = ''kX2vQ9pLm3RtY7uZ1aBcD4eF''\<rparr>"

text \<open>Bodies that break a rule of their validation chain.\<close>

definition ex_short_body :: create_body where
  "ex_short_body = \<lparr>cb_productId = ''64b7f0c2a1d3e4f5a6b7c8d1'', cb_quantity = 50,
                     cb_message = ''hi'', cb_expectedPrice = None\<rparr>"

definition ex_big_body :: create_body where
  "ex_big_body = \<lparr>cb_productId = ''64b7f0c2a1d3e4f5a6b7c8d1'', cb_quantity = 50,
                   cb_message = ''need these by Friday for repair job'',
                   cb_expectedPrice = None\<rparr>"

definition ex_empty_respond_body :: respond_body where
  "ex_empty_respond_body =
     \<lparr>rb_message = [], rb_price = 100, rb_deliveryTime = ''3 days''\<rparr>"

text \<open>An inquiry whose numbers are not yet rounded: 5.5 pieces at 1.005, answered at 199.995.\<close>

definition ex_unrounded_inquiry :: Inquiry where
  "ex_unrounded_inquiry =
     ex_inquiry\<lparr>quantity := 11 / 2, expectedPrice := Some (decimal 1005 3),
                response := Some \<lparr>response_message = ''Can deliver in 3 days at this rate'',
                                  price = Some (decimal 199995 3),
                                  deliveryTime = ''3 days'', respondedAt = 2000\<rparr>\<rparr>"

text \<open>
  The inquiry after the seller's answer at time 2000, and the store that holds it.
\<close>

definition ex_responded_inquiry :: Inquiry where
  "ex_responded_inquiry =
     \<lparr>inquiry_id = ''64b7f0c2a1d3e4f5a6b7c8d9'',
      product = ''64b7f0c2a1d3e4f5a6b7c8d1'',
      buyer = ''64b7f0c2a1d3e4f5a6b7c8d2'',
      seller = ''64b7f0c2a1d3e4f5a6b7c8d3'',
      quantity = 5, message = ''need these by Friday for repair job'',
      status = ''responded'',
      buyerContact = (Some ''13800000000'', Some ''buyer@example.com''),
      response = Some \<lparr>response_message = ''Can deliver in 3 days at this rate'',
                        price = Some 200, deliveryTime = ''3 days'', respondedAt = 2000\<rparr>,
      expectedPrice = None, urgency = ''medium'', createdAt = 1000\<rparr>"

definition ex_store2 :: store where
  "ex_store2 = \<lparr>products = [ex_product], inquiries = [ex_responded_inquiry]\<rparr>"

text \<open>
  A body with the expected price 1.005, and the inquiry that creating it stores; an
  answer with a negative price, as response data and as a request body; a body whose
  message is ten spaces.
\<close>

definition ex_priced_body :: create_body where
  "ex_priced_body = \<lparr>cb_productId = ''64b7f0c2a1d3e4f5a6b7c8d1'', cb_quantity = 5,
                      cb_message = ''need these by Friday for repair job'',
                      cb_expectedPrice = Some (decimal 1005 3)\<rparr>"

definition ex_priced_inquiry :: Inquiry where
  "ex_priced_inquiry =
     \<lparr>inquiry_id = ''64b7f0c2a1d3e4f5a6b7c8d9'',
      product = ''64b7f0c2a1d3e4f5a6b7c8d1'',
      buyer = ''64b7f0c2a1d3e4f5a6b7c8d2'',
      seller = ''64b7f0c2a1d3e4f5a6b7c8d3'',
      quantity = 5, message = ''need these by Friday for repair job'',
      status = ''pending'',
      buyerContact = (Some ''13800000000'', Some ''buyer@example.com''),
      response = None, expectedPrice = Some 1, urgency = ''medium'', createdAt = 1000\<rparr>"

definition ex_negative_responseData :: responseData where
  "ex_negative_responseData = \<lparr>rd_message = ''Can deliver in 3 days at this rate'',
                                rd_price = Some (- 5), rd_deliveryTime = ''3 days''\<rparr>"

definition ex_negative_respond_body :: respond_body where
  "ex_negative_respond_body = \<lparr>rb_message = ''Can deliver in 3 days at this rate'',
                                rb_price = - 5, rb_deliveryTime = ''3 days''\<rparr>"

definition ex_blank_body :: create_body where
  "ex_blank_body = \<lparr>cb_productId = ''64b7f0c2a1d3e4f5a6b7c8d1'', cb_quantity = 5,
                     cb_message = ''          '', cb_expectedPrice = None\<rparr>"

section \<open>Properties\<close>

subsection \<open>Rounding to a Number\<close>

text \<open>
  \<open>ilog2\<close> is the binary exponent, and \<open>fl x\<close> is within half a unit in the last place
  of \<open>x\<close>.
\<close>

lemma pow2_powi: "pow2 e = 2 powi e"
  by (simp add: pow2_def power_int_def inverse_eq_divide power_one_over)

lemma pow2_pos: "0 < pow2 e"
  by (simp add: pow2_powi)

lemma pow2_add: "pow2 (a + b) = pow2 a * pow2 b"
  by (simp add: pow2_powi power_int_add)

lemma pow2_mono: "a \<le> b \<Longrightarrow> pow2 a \<le> pow2 b"
  by (simp add: pow2_powi power_int_increasing)

lemma pow2_less_cancel: "pow2 a < pow2 b \<Longrightarrow> a < b"
  using pow2_mono [of b a] by (cases "a < b") auto

lemma bitlen_pow2_bounds:
  assumes "0 < a"
  shows "pow2 (bitlen a - 1) \<le> of_int a" and "of_int a < pow2 (bitlen a)"
proof -
  from assms have b1: "1 \<le> bitlen a"
    by (simp add: bitlen_alt_def)
  from bitlen_bounds [OF assms]
  have lo: "2 ^ nat (bitlen a - 1) \<le> a" and hi: "a < 2 ^ nat (bitlen a)"
    by auto
  from lo have "(of_int (2 ^ nat (bitlen a - 1)) :: rat) \<le> of_int a"
    by (simp only: of_int_le_iff)
  with b1 show "pow2 (bitlen a - 1) \<le> of_int a"
    by (simp add: pow2_def)
  from hi have "(of_int a :: rat) < of_int (2 ^ nat (bitlen a))"
    by (simp only: of_int_less_iff)
  with b1 show "of_int a < pow2 (bitlen a)"
    by (simp add: pow2_def)
qed

lemma ilog2_bounds:
  assumes "0 < x"
  shows "pow2 (ilog2 x) \<le> x \<and> x < pow2 (ilog2 x + 1)"
proof -
  obtain a b where q: "quotient_of x = (a, b)"
    by (cases "quotient_of x")
  then have bpos: "0 < b" and x: "x = of_int a / of_int b"
    by (simp_all add: quotient_of_denom_pos quotient_of_div)
  with assms have apos: "0 < a"
    by (simp add: zero_less_divide_iff)
  let ?d = "bitlen a - bitlen b"
  note A = bitlen_pow2_bounds [OF apos] and B = bitlen_pow2_bounds [OF bpos]
  have bq: "(0::rat) < of_int b" using bpos by simp
  have up: "x < pow2 (?d + 1)"
  proof -
    have "of_int a < pow2 (bitlen a)" by (rule A(2))
    also have "\<dots> = pow2 (?d + 1) * pow2 (bitlen b - 1)"
      by (simp flip: pow2_add)
    also have "\<dots> \<le> pow2 (?d + 1) * of_int b"
      using B(1) pow2_pos [of "?d + 1"] by (simp add: mult_left_mono less_imp_le)
    finally show ?thesis
      using bq by (simp add: x pos_divide_less_eq)
  qed
  have lo: "pow2 (?d - 1) \<le> x"
  proof -
    have "pow2 (?d - 1) * of_int b \<le> pow2 (?d - 1) * pow2 (bitlen b)"
      using B(2) pow2_pos [of "?d - 1"] by (simp add: mult_left_mono less_imp_le)
    also have "\<dots> = pow2 (bitlen a - 1)"
      by (simp flip: pow2_add)
    also have "\<dots> \<le> of_int a" by (rule A(1))
    finally show ?thesis
      using bq by (simp add: x pos_le_divide_eq)
  qed
  show ?thesis
  proof (cases "pow2 ?d \<le> x")
    case True
    with q up show ?thesis by (simp add: ilog2_def)
  next
    case False
    with q lo show ?thesis by (simp add: ilog2_def)
  qed
qed

lemma round_half_even_near: "\<bar>of_int (round_half_even q) - q\<bar> \<le> 1 / 2"
proof -
  have "of_int \<lfloor>q\<rfloor> \<le> q" "q < of_int \<lfloor>q\<rfloor> + 1"
    by linarith+
  then show ?thesis
    by (auto simp: round_half_even_def Let_def)
qed

lemma round_scaled_near:
  assumes "0 < p"
  shows "\<bar>of_int (round_half_even (y / p)) * p - y\<bar> \<le> p / 2"
proof -
  have "of_int (round_half_even (y / p)) * p - y = (of_int (round_half_even (y / p)) - y / p) * p"
    using assms by (simp add: algebra_simps)
  then have "\<bar>of_int (round_half_even (y / p)) * p - y\<bar> =
               \<bar>of_int (round_half_even (y / p)) - y / p\<bar> * p"
    using assms by (simp add: abs_mult)
  also have "\<dots> \<le> 1 / 2 * p"
    using round_half_even_near [of "y / p"] assms by (intro mult_right_mono) auto
  finally show ?thesis by simp
qed

lemma fl_near:
  "\<bar>fl x - x\<bar> \<le> pow2 (max (ilog2 \<bar>x\<bar> - 52) (- 1074)) / 2"
proof -
  let ?e = "max (ilog2 \<bar>x\<bar> - 52) (- 1074)"
  have p: "0 < pow2 ?e" by (rule pow2_pos)
  note r = round_scaled_near [OF p, of "\<bar>x\<bar>"]
  consider "x = 0" | "0 < x" | "x < 0" by linarith
  then show ?thesis
  proof cases
    case 1
    with p show ?thesis by (simp add: fl_def)
  next
    case 2
    with r show ?thesis by (simp add: fl_def Let_def)
  next
    case 3
    then have "fl x - x = - (of_int (round_half_even (\<bar>x\<bar> / pow2 ?e)) * pow2 ?e - \<bar>x\<bar>)"
      by (simp add: fl_def Let_def)
    with r show ?thesis by (simp only: abs_minus_cancel)
  qed
qed

text \<open>
  Known values: 0.1 as a Number; a tie between two Numbers goes to the one with the
  even significand; and \<open>1.005 * 100\<close> is the Number just below 100.5.
\<close>

lemma fl_tenth: "decimal 1 1 = 3602879701896397 / 36028797018963968"
  by code_simp

lemma fl_ties_to_even:
  "fl 9007199254740993 = 9007199254740992" "fl 9007199254740995 = 9007199254740996"
  by code_simp+

lemma js_times_1005: "js_times (decimal 1005 3) 100 = 7072058789855231 / 70368744177664"
  by code_simp

lemma ilog2_less:
  assumes "0 < x" and "x < pow2 n"
  shows "ilog2 x < n"
proof -
  from ilog2_bounds [OF assms(1)] assms(2) have "pow2 (ilog2 x) < pow2 n"
    by linarith
  then show ?thesis by (rule pow2_less_cancel)
qed

lemma fl_near_below:
  assumes "\<bar>x\<bar> < pow2 n" and "- 1021 \<le> n"
  shows "\<bar>fl x - x\<bar> \<le> pow2 (n - 53) / 2"
proof (cases "x = 0")
  case True
  then show ?thesis
    using pow2_pos [of "n - 53"] by (simp add: fl_def)
next
  case False
  then have "ilog2 \<bar>x\<bar> < n"
    using assms(1) by (intro ilog2_less) auto
  with assms(2) have "max (ilog2 \<bar>x\<bar> - 52) (- 1074) \<le> n - 53"
    by simp
  then have "pow2 (max (ilog2 \<bar>x\<bar> - 52) (- 1074)) \<le> pow2 (n - 53)"
    by (rule pow2_mono)
  with fl_near [of x] show ?thesis by linarith
qed

lemma round_price_near:
  assumes "0 \<le> p" and "p \<le> 1000000"
  shows "\<bar>round_price p - p\<bar> \<le> 1 / 200 + 1 / 1000000000"
proof -
  let ?y = "js_times p 100"
  let ?k = "\<lfloor>?y + 1 / 2\<rfloor>"
  have p27: "\<bar>p * 100\<bar> < pow2 27"
    using assms by (simp add: pow2_def)
  have y: "\<bar>?y - p * 100\<bar> \<le> pow2 (- 26) / 2"
    using fl_near_below [OF p27] by (simp add: js_times_def)
  have y': "\<bar>?y - p * 100\<bar> \<le> 1 / 2 ^ 27"
    using y by (simp add: pow2_def)
  have k1: "of_int ?k \<le> ?y + 1 / 2" and k2: "?y + 1 / 2 < of_int ?k + 1"
    by linarith+
  have ky: "\<bar>of_int ?k - ?y\<bar> \<le> 1 / 2"
    using k1 k2 by linarith
  have kp100: "\<bar>of_int ?k - p * 100\<bar> \<le> 1 / 2 + 1 / 2 ^ 27"
    using ky y' by linarith
  have "of_int ?k / 100 - p = (of_int ?k - p * 100) / 100"
    by simp
  then have "\<bar>of_int ?k / 100 - p\<bar> = \<bar>of_int ?k - p * 100\<bar> / 100"
    by (simp only: abs_divide abs_numeral)
  also have "\<dots> \<le> (1 / 2 + 1 / 2 ^ 27) / 100"
    using kp100 by (rule divide_right_mono) simp
  finally have kp: "\<bar>of_int ?k / 100 - p\<bar> \<le> 1 / 200 + 1 / (100 * 2 ^ 27)"
    by simp
  have "\<bar>of_int ?k / 100\<bar> \<le> \<bar>p\<bar> + (1 / 200 + 1 / (100 * 2 ^ 27))"
    using kp by linarith
  with assms have k20: "\<bar>of_int ?k / 100 :: rat\<bar> < pow2 20"
    by (simp add: pow2_def)
  have z: "\<bar>fl (of_int ?k / 100) - of_int ?k / 100\<bar> \<le> pow2 (- 33) / 2"
    using fl_near_below [OF k20] by simp
  have z': "\<bar>fl (of_int ?k / 100) - of_int ?k / 100\<bar> \<le> 1 / 2 ^ 34"
    using z by (simp add: pow2_def)
  have r: "round_price p = fl (of_int ?k / 100)"
    by (simp add: round_price_def Math_round_def js_divide_def)
  have "\<bar>round_price p - p\<bar> \<le> 1 / 2 ^ 34 + (1 / 200 + 1 / (100 * 2 ^ 27))"
    unfolding r using z' kp by linarith
  also have "\<dots> \<le> 1 / 200 + 1 / 1000000000"
    by simp
  finally show ?thesis .
qed

subsection \<open>The save hook\<close>

lemma round_half_even_le:
  assumes "q \<le> of_int N"
  shows "round_half_even q \<le> N"
proof -
  have a: "\<lfloor>q\<rfloor> \<le> N"
    using assms by (simp add: floor_le_iff)
  have b: "0 < q - of_int \<lfloor>q\<rfloor> \<Longrightarrow> \<lfloor>q\<rfloor> + 1 \<le> N"
  proof -
    assume "0 < q - of_int \<lfloor>q\<rfloor>"
    with assms have "(of_int \<lfloor>q\<rfloor> :: rat) < of_int N" by linarith
    then show ?thesis by simp
  qed
  show ?thesis
    using a b by (simp add: round_half_even_def Let_def)
qed

lemma round_half_even_nonneg:
  assumes "0 \<le> q"
  shows "0 \<le> round_half_even q"
proof -
  have "0 \<le> \<lfloor>q\<rfloor>" using assms by simp
  then show ?thesis by (simp add: round_half_even_def Let_def)
qed

lemma fl_nonneg:
  assumes "0 \<le> x"
  shows "0 \<le> fl x"
proof (cases "x = 0")
  case True
  then show ?thesis by (simp add: fl_def)
next
  case False
  with assms have x: "0 < x" by simp
  let ?e = "max (ilog2 \<bar>x\<bar> - 52) (- 1074)"
  have "0 \<le> \<bar>x\<bar> / pow2 ?e"
    using pow2_pos [of ?e] by simp
  then have "0 \<le> round_half_even (\<bar>x\<bar> / pow2 ?e)"
    by (rule round_half_even_nonneg)
  then have "0 \<le> (of_int (round_half_even (\<bar>x\<bar> / pow2 ?e)) :: rat) * pow2 ?e"
    using pow2_pos [of ?e] by simp
  with x False show ?thesis
    by (simp add: fl_def Let_def)
qed

text \<open>Rounding does not step over an integer that a Number holds exactly.\<close>

lemma fl_le_int:
  assumes "0 \<le> x" and "x \<le> of_int B" and "of_int B < pow2 53"
  shows "fl x \<le> of_int B"
proof (cases "x = 0")
  case True
  with assms show ?thesis by (simp add: fl_def)
next
  case False
  with assms have x: "0 < x" by simp
  define e where "e = max (ilog2 \<bar>x\<bar> - 52) (- 1074)"
  from x assms have "ilog2 x < 53"
    by (intro ilog2_less) simp_all
  with x have e: "e \<le> 0" by (simp add: e_def)
  define n where "n = nat (- e)"
  have p: "pow2 e = 1 / 2 ^ n"
    using e by (auto simp: pow2_def n_def)
  have "\<bar>x\<bar> / pow2 e = x * 2 ^ n"
    using x by (simp add: p)
  also have "\<dots> \<le> of_int B * 2 ^ n"
    using assms(2) by simp
  also have "\<dots> = of_int (B * 2 ^ n)" by simp
  finally have "round_half_even (\<bar>x\<bar> / pow2 e) \<le> B * 2 ^ n"
    by (rule round_half_even_le)
  then have "(of_int (round_half_even (\<bar>x\<bar> / pow2 e)) :: rat) \<le> of_int (B * 2 ^ n)"
    by (simp only: of_int_le_iff)
  then have "(of_int (round_half_even (\<bar>x\<bar> / pow2 e)) :: rat) * pow2 e
               \<le> of_int (B * 2 ^ n) * pow2 e"
    using pow2_pos [of e] by (simp only: mult_le_cancel_right_pos)
  also have "of_int (B * 2 ^ n) * pow2 e = of_int B"
    by (simp add: p)
  finally have "(of_int (round_half_even (\<bar>x\<bar> / pow2 e)) :: rat) * pow2 e \<le> of_int B" .
  moreover have "fl x = of_int (round_half_even (\<bar>x\<bar> / pow2 e)) * pow2 e"
    using x by (simp add: fl_def Let_def e_def)
  ultimately show ?thesis by simp
qed

text \<open>A price within the bounds of the schema is rounded to a price within them.\<close>

lemma round_price_range:
  assumes "0 \<le> p" and "p \<le> 1000000"
  shows "0 \<le> round_price p \<and> round_price p \<le> 1000000"
proof -
  let ?y = "js_times p 100"
  let ?k = "\<lfloor>?y + 1 / 2\<rfloor>"
  have big: "(of_int 100000000 :: rat) < pow2 53" "(of_int 1000000 :: rat) < pow2 53"
    by (simp_all add: pow2_def)
  have y0: "0 \<le> ?y"
    unfolding js_times_def using assms by (intro fl_nonneg) simp
  have y1: "?y \<le> of_int 100000000"
    unfolding js_times_def using assms big by (intro fl_le_int) simp_all
  have k0: "0 \<le> ?k" using y0 by simp
  have "?y + 1 / 2 < of_int 100000001" using y1 by simp
  then have "?k < 100000001" by (simp only: floor_less_iff)
  then have k1: "?k \<le> 100000000" by simp
  have q0: "0 \<le> (of_int ?k :: rat) / 100" using k0 by simp
  have "(of_int ?k :: rat) \<le> of_int 100000000" using k1 by (simp only: of_int_le_iff)
  then have q1: "(of_int ?k :: rat) / 100 \<le> of_int 1000000" by simp
  have r: "round_price p = fl (of_int ?k / 100)"
    by (simp add: round_price_def Math_round_def js_divide_def)
  have "0 \<le> fl (of_int ?k / 100)" using q0 by (rule fl_nonneg)
  moreover have "fl (of_int ?k / 100) \<le> of_int 1000000"
    using q0 q1 big(2) by (rule fl_le_int)
  ultimately show ?thesis by (simp add: r)
qed

lemma round_price_nearest:
  "\<exists>k::int. round_price p = fl (of_int k / 100)
      \<and> of_int k - 1 / 2 \<le> js_times p 100 \<and> js_times p 100 < of_int k + 1 / 2"
proof -
  let ?x = "js_times p 100"
  let ?k = "\<lfloor>?x + 1 / 2\<rfloor>"
  have "of_int ?k \<le> ?x + 1 / 2" and "?x + 1 / 2 < of_int ?k + 1"
    by linarith+
  then have "of_int ?k - 1 / 2 \<le> ?x \<and> ?x < of_int ?k + 1 / 2"
    by linarith
  moreover have "round_price p = fl (of_int ?k / 100)"
    by (simp add: round_price_def Math_round_def js_divide_def)
  ultimately show ?thesis by blast
qed

lemma round_price_0: "round_price 0 = 0"
  by code_simp

text \<open>What the hook does to a document, in one update.\<close>

lemma pre_save_eq:
  "pre_save this =
     this\<lparr>quantity := of_int \<lfloor>quantity this\<rfloor>,
          expectedPrice := map_option round_price (expectedPrice this),
          response := map_option (\<lambda>r. r\<lparr>price := map_option round_price (price r)\<rparr>)
                        (response this)\<rparr>"
  by (simp add: pre_save_def Let_def Math_floor_def round_price_0 split: option.splits)

lemma save_Inr: "save this = Inr d \<longleftrightarrow> validate this = [] \<and> d = pre_save this"
  by (auto simp: save_def)

text \<open>The document passes the validators when every rule holds.\<close>

lemma rule_Nil: "rule ok field = [] \<longleftrightarrow> ok"
  by (simp add: rule_def)

lemma validate_Nil:
  "validate this = [] \<longleftrightarrow>
     1 \<le> quantity this
   \<and> message this \<noteq> [] \<and> 10 \<le> length (message this) \<and> length (message this) \<le> 500
   \<and> status this \<in> set status_enum
   \<and> (case fst (buyerContact this) of None \<Rightarrow> True | Some p \<Rightarrow> phone_pattern p)
   \<and> (case snd (buyerContact this) of None \<Rightarrow> True | Some e \<Rightarrow> e = [] \<or> email_pattern e)
   \<and> (case response this of
        None \<Rightarrow> True
      | Some r \<Rightarrow>
          length (response_message r) \<le> 1000
        \<and> (case price r of None \<Rightarrow> True | Some p \<Rightarrow> 0 \<le> p \<and> p \<le> 1000000)
        \<and> length (deliveryTime r) \<le> 100)
   \<and> (case expectedPrice this of None \<Rightarrow> True | Some p \<Rightarrow> 0 \<le> p \<and> p \<le> 1000000)
   \<and> urgency this \<in> set urgency_enum"
  by (simp add: validate_def rule_Nil split: option.split)

text \<open>
  A document that passes the validators still passes them after the hook: every
  document that \<open>save\<close> has written is valid.
\<close>

lemma floor_ge_1: "1 \<le> q \<Longrightarrow> (1 :: rat) \<le> of_int \<lfloor>q\<rfloor>"
proof -
  assume "1 \<le> q"
  then have "1 \<le> \<lfloor>q\<rfloor>" by (simp add: le_floor_iff)
  then show ?thesis by (simp only: of_int_1_le_iff)
qed

lemma validate_pre_save:
  assumes "validate this = []"
  shows "validate (pre_save this) = []"
proof -
  have q: "1 \<le> quantity this \<Longrightarrow> (1 :: rat) \<le> of_int \<lfloor>quantity this\<rfloor>"
    by (rule floor_ge_1)
  have e: "(case expectedPrice this of None \<Rightarrow> True | Some p \<Rightarrow> 0 \<le> p \<and> p \<le> 1000000) \<Longrightarrow>
           (case map_option round_price (expectedPrice this) of
              None \<Rightarrow> True | Some p \<Rightarrow> 0 \<le> p \<and> p \<le> 1000000)"
    using round_price_range by (cases "expectedPrice this") simp_all
  have r: "(case response this of
              None \<Rightarrow> True
            | Some r \<Rightarrow>
                length (response_message r) \<le> 1000
              \<and> (case price r of None \<Rightarrow> True | Some p \<Rightarrow> 0 \<le> p \<and> p \<le> 1000000)
              \<and> length (deliveryTime r) \<le> 100) \<Longrightarrow>
           (case map_option (\<lambda>r. r\<lparr>price := map_option round_price (price r)\<rparr>) (response this) of
              None \<Rightarrow> True
            | Some r \<Rightarrow>
                length (response_message r) \<le> 1000
              \<and> (case price r of None \<Rightarrow> True | Some p \<Rightarrow> 0 \<le> p \<and> p \<le> 1000000)
              \<and> length (deliveryTime r) \<le> 100)"
  proof (cases "response this")
    case None
    then show ?thesis by simp
  next
    case (Some r0)
    assume "case response this of
              None \<Rightarrow> True
            | Some r \<Rightarrow>
                length (response_message r) \<le> 1000
              \<and> (case price r of None \<Rightarrow> True | Some p \<Rightarrow> 0 \<le> p \<and> p \<le> 1000000)
              \<and> length (deliveryTime r) \<le> 100"
    with Some show ?thesis
      using round_price_range by (cases "price r0") simp_all
  qed
  from assms q e r show ?thesis
    unfolding validate_Nil pre_save_eq by simp
qed

lemma save_keeps_valid: "save this = Inr d \<Longrightarrow> validate d = []"
  by (auto simp: save_Inr validate_pre_save)

subsection \<open>The setter trim\<close>

lemma dropWhile_snoc: "\<not> P y \<Longrightarrow> \<exists>zs. dropWhile P (ws @ [y]) = zs @ [y]"
  by (induction ws) auto

lemma dropWhile_rev_fixed:
  assumes "u = [] \<or> \<not> P (hd u)"
  shows "dropWhile P (rev (dropWhile P (rev u))) = rev (dropWhile P (rev u))"
proof (cases u)
  case Nil
  show ?thesis unfolding Nil by simp
next
  case (Cons y ys)
  with assms have n: "\<not> P y" by simp
  from dropWhile_snoc [of P y "rev ys", OF n]
  obtain zs where z: "dropWhile P (rev ys @ [y]) = zs @ [y]" ..
  have r: "rev u = rev ys @ [y]"
    unfolding Cons by simp
  have "rev (dropWhile P (rev u)) = y # rev zs"
    unfolding r z by simp
  then show ?thesis
    using n by (simp only: dropWhile.simps if_False)
qed

lemma trim_idem: "trim (trim s) = trim s"
proof -
  have "dropWhile is_space s = [] \<or> \<not> is_space (hd (dropWhile is_space s))"
    using hd_dropWhile [of is_space s] by blast
  then have "dropWhile is_space (rev (dropWhile is_space (rev (dropWhile is_space s)))) =
               rev (dropWhile is_space (rev (dropWhile is_space s)))"
    by (rule dropWhile_rev_fixed)
  then show ?thesis
    unfolding trim_def by (simp only: rev_rev_ident dropWhile_idem)
qed

lemma length_trim: "length (trim s) \<le> length s"
proof -
  have "length (dropWhile is_space (rev (dropWhile is_space s)))
          \<le> length (rev (dropWhile is_space s))"
    by (rule length_dropWhile_le)
  also have "\<dots> \<le> length s" by (simp add: length_dropWhile_le)
  finally show ?thesis by (simp add: trim_def)
qed

subsection \<open>The handlers\<close>

lemma Inquiry_create_Inr:
  assumes "Inquiry_create now new_id p b sl q m ep c = Inr inq"
  shows "status inq = ''pending'' \<and> quantity inq = of_int \<lfloor>q\<rfloor>
       \<and> expectedPrice inq = map_option round_price ep"
  using assms by (auto simp: Inquiry_create_def save_Inr pre_save_eq)

lemma create_handler_cases:
  "create_handler now new_id user b s = (r, s') \<Longrightarrow>
     (s' = s \<and> (\<exists>n m. r = Response n (ErrorBody m) \<and> n \<noteq> 201))
   \<or> (\<exists>inq. r = Response 201 (InquiryBody inq) \<and> status inq = ''pending''
          \<and> quantity inq = of_int \<lfloor>cb_quantity b\<rfloor>
          \<and> expectedPrice inq = map_option round_price (cb_expectedPrice b)
          \<and> s' = s\<lparr>inquiries := inquiries s @ [inq]\<rparr>)"
  by (auto simp: create_handler_def dest: Inquiry_create_Inr
           split: option.splits if_splits sum.splits)

lemma cb_productId_validation [simp]:
  "cb_productId (snd (createInquiryValidation b)) = cb_productId b"
  by (simp add: createInquiryValidation_def)

lemma cb_quantity_validation [simp]:
  "cb_quantity (snd (createInquiryValidation b)) = cb_quantity b"
  by (simp add: createInquiryValidation_def)

lemma cb_expectedPrice_validation [simp]:
  "cb_expectedPrice (snd (createInquiryValidation b)) = cb_expectedPrice b"
  by (simp add: createInquiryValidation_def)

lemma find_None_iff: "find P xs = None \<longleftrightarrow> list_all (\<lambda>x. \<not> P x) xs"
  by (induction xs) auto

lemma Inquiry_findOne_not_seller:
  assumes "list_all (\<lambda>i. inquiry_id i = id_param \<longrightarrow> seller i \<noteq> user_id user) (inquiries s)"
  shows "Inquiry_findOne s id_param (user_id user) = None"
  unfolding Inquiry_findOne_def find_None_iff
  using assms by (simp add: list_all_iff)

lemma respond_handler_no_inquiry:
  assumes "Inquiry_findOne s id_param (user_id user) = None"
  shows "respond_handler now user id_param b s =
           (if is_hex24 id_param then Response 404 (ErrorBody E_InquiryNotFound)
            else Response 400 (ErrorBody E_InvalidIdFormat), s)"
  using assms by (simp add: respond_handler_def)

lemma status_code_respond_handler:
  "status_code (fst (respond_handler now user id_param b s)) \<in> {200, 400, 404, 500}"
  by (simp add: respond_handler_def split: option.splits sum.splits)

lemma status_code_patch_respond:
  "status_code (fst (patch_respond now user id_param b s)) \<in> {200, 400, 404, 500}"
  using status_code_respond_handler
  by (simp add: patch_respond_def case_prod_beta)

subsection \<open>Mount points\<close>

lemma startsWith_both:
  assumes "startsWith p a" and "startsWith p b" and "length b \<le> length a"
  shows "take (length b) a = b"
proof -
  have "take (length b) (take (length a) p) = take (length b) p"
    using assms(3) by (simp add: min_def)
  with assms(1,2) show ?thesis
    by (simp add: startsWith_def)
qed

lemma find_mount_inquiries:
  assumes "mounted_at ''/api/inquiries'' p"
  shows "find (\<lambda>(mount_point, ms). mounted_at mount_point p) mounts =
           Some (''/api/inquiries'', [Auth, ApiLimiter, Router ''inquiries''])"
proof -
  from assms have s: "startsWith p ''/api/inquiries''"
    by (simp add: mounted_at_def)
  have a: "\<not> startsWith p ''/auth''"
    using startsWith_both [OF s, of "''/auth''"] by auto
  have b: "\<not> startsWith p ''/api/products''"
    using startsWith_both [OF s, of "''/api/products''"] by auto
  have c: "\<not> startsWith p ''/api/users''"
    using startsWith_both [OF s, of "''/api/users''"] by auto
  from a b c assms show ?thesis
    by (simp add: mounts_def mounted_at_def)
qed

lemma find_mount_products:
  assumes "mounted_at ''/api/products'' p"
  shows "find (\<lambda>(mount_point, ms). mounted_at mount_point p) mounts =
           Some (''/api/products'', [Auth, ApiLimiter, Router ''products''])"
proof -
  from assms have s: "startsWith p ''/api/products''"
    by (simp add: mounted_at_def)
  have a: "\<not> startsWith p ''/auth''"
    using startsWith_both [OF s, of "''/auth''"] by auto
  from a assms show ?thesis
    by (simp add: mounts_def mounted_at_def)
qed

subsection \<open>The example data\<close>

lemma ex_rate: "0 \<le> decimal 199995 3 \<and> decimal 199995 3 \<le> 1000000"
  by code_simp

lemma ex_valid: "fst (respondInquiryValidation ex_respond_body) = []"
  using ex_rate by (simp add: respondInquiryValidation_def ex_respond_body_def rule_def)

lemma ex_hex: "is_hex24 ''64b7f0c2a1d3e4f5a6b7c8d9''"
  by (simp add: is_hex24_def is_hex_def)

lemma ex_find: "Inquiry_findOne ex_store1 ''64b7f0c2a1d3e4f5a6b7c8d9'' (user_id ex_seller) = Some ex_inquiry"
  by (simp add: Inquiry_findOne_def ex_store1_def ex_inquiry_def ex_seller_def)

lemma ex_find_responded:
  "Inquiry_findOne ex_store2 ''64b7f0c2a1d3e4f5a6b7c8d9'' (user_id ex_seller) =
     Some ex_responded_inquiry"
  by (simp add: Inquiry_findOne_def ex_store2_def ex_responded_inquiry_def ex_seller_def)

lemma ex_price_product: "js_times (decimal 199995 3) 100 = 39999 / 2"
  unfolding js_times_def by code_simp

lemma ex_price_rounded: "round_price (decimal 199995 3) = 200"
  by code_simp

lemma ex_create_valid: "createInquiryValidation ex_create_body = ([], ex_create_body)"
  by (simp add: createInquiryValidation_def ex_create_body_def rule_def isInt_def is_hex24_def is_hex_def
        trim_def is_space_def)

lemma ex_find_product:
  "Product_findOne ex_store0 (cb_productId ex_create_body) = Some ex_product"
  by (simp add: Product_findOne_def ex_store0_def ex_product_def ex_create_body_def)

lemma ex_inquiry_valid: "validate ex_inquiry = []"
  by code_simp

lemma ex_responded_inquiry_valid: "validate ex_responded_inquiry = []"
  by code_simp

lemma ex_unrounded_inquiry_valid: "validate ex_unrounded_inquiry = []"
  by code_simp

text \<open>The end-to-end scenarios, evaluated.\<close>

lemma ex_create:
  "post_inquiry 1000 ''64b7f0c2a1d3e4f5a6b7c8d9'' ex_buyer ex_create_body ex_store0 =
     (Response 201 (InquiryBody ex_inquiry), ex_store1)"
  by code_simp

lemma ex_priced_create:
  "post_inquiry 1000 ''64b7f0c2a1d3e4f5a6b7c8d9'' ex_buyer ex_priced_body ex_store0 =
     (Response 201 (InquiryBody ex_priced_inquiry),
      \<lparr>products = [ex_product], inquiries = [ex_priced_inquiry]\<rparr>)"
  by code_simp

lemma ex_respond:
  "patch_respond 2000 ex_seller ''64b7f0c2a1d3e4f5a6b7c8d9'' ex_respond_body ex_store1 =
     (Response 200 (InquiryBody ex_responded_inquiry), ex_store2)"
  by code_simp

lemma ex_respond_again:
  "patch_respond 3000 ex_seller ''64b7f0c2a1d3e4f5a6b7c8d9'' ex_respond_body ex_store2 =
     (Response 400 (ErrorBody E_AlreadyResponded), ex_store2)"
  by code_simp

lemma ex_respond_method:
  "respondToInquiry 2000 ex_responseData ex_inquiry = (None, ex_responded_inquiry)"
  by code_simp

text \<open>
  A message of ten spaces passes the validation chain of the route, is trimmed to the
  empty string, and fails the \<open>required\<close> validator of the schema: the answer is 500,
  and nothing is stored.
\<close>

lemma ex_blank_create:
  "post_inquiry 1000 ''64b7f0c2a1d3e4f5a6b7c8d9'' ex_buyer ex_blank_body ex_store0 =
     (Response 500 (ErrorBody E_CreateFailed), ex_store0)"
  by code_simp

lemma ex_short_invalid: "fst (createInquiryValidation ex_short_body) = [''message'']"
  by (simp add: createInquiryValidation_def ex_short_body_def rule_def isInt_def
        is_hex24_def is_hex_def)

lemma ex_big_valid: "fst (createInquiryValidation ex_big_body) = []"
  by (simp add: createInquiryValidation_def ex_big_body_def rule_def isInt_def
        is_hex24_def is_hex_def)

lemma ex_find_product_id:
  "Product_findOne ex_store0 ''64b7f0c2a1d3e4f5a6b7c8d1'' = Some ex_product"
  by (simp add: Product_findOne_def ex_store0_def ex_product_def)

lemma ex_low_price_range: "0 \<le> decimal 1005 3 \<and> decimal 1005 3 \<le> 1000000"
  by code_simp

lemma ex_low_price_rounded: "round_price (decimal 1005 3) = 1"
  by code_simp

lemma ex_empty_invalid:
  "fst (respondInquiryValidation ex_empty_respond_body) = [''message'', ''message'']"
  by (simp add: respondInquiryValidation_def ex_empty_respond_body_def rule_def)

subsection \<open>Status transitions\<close>

text \<open>
  Claim C1. For every inquiry (its status one of the six values of the schema) and every
  target status: \<open>updateStatus\<close> succeeds only when the target is in the transition
  table of section 4.1, and for a target outside the allowed set of the current state
  it throws the invalid-transition error, and the inquiry, its status included, is as
  it was. When the inquiry passes the validators of its schema, as every inquiry that
  has been saved does (lemma \<open>save_keeps_valid\<close>), it succeeds exactly when the target
  is in the table. For a target in the table it sets the status to the target; \<open>save\<close>
  then throws only for an inquiry that does not pass the validators.
\<close>

theorem updateStatus_follows_transition_table:
  assumes "status this \<in> set status_enum"
  shows "(validate this = [] \<longrightarrow>
            (fst (updateStatus newStatus this) = None \<longleftrightarrow>
               spec_transition (status this) newStatus))
       \<and> (fst (updateStatus newStatus this) = None \<longrightarrow>
            spec_transition (status this) newStatus)
       \<and> (spec_transition (status this) newStatus \<longrightarrow>
            status (snd (updateStatus newStatus this)) = newStatus)
       \<and> (\<not> spec_transition (status this) newStatus \<longrightarrow>
            updateStatus newStatus this =
              (Some (InvalidTransition (status this) newStatus), this))
       \<and> (spec_transition (status this) newStatus \<and> validate this \<noteq> [] \<longrightarrow>
            (\<exists>paths. fst (updateStatus newStatus this) = Some (ValidationError paths)))"
proof -
  have "\<exists>allowed. map_of validTransitions (status this) = Some allowed"
    using assms by (auto simp: validTransitions_def status_enum_def)
  then obtain allowed where a: "map_of validTransitions (status this) = Some allowed" ..
  have "spec_transition (status this) newStatus \<longleftrightarrow>
          (\<exists>allowed. map_of validTransitions (status this) = Some allowed
             \<and> newStatus \<in> set allowed)"
    by (auto simp: spec_transition_def validTransitions_def split: if_splits)
  with a have t: "spec_transition (status this) newStatus \<longleftrightarrow> newStatus \<in> set allowed"
    by simp
  have hook: "status (pre_save x) = status x" for x
    by (simp add: pre_save_def Let_def split: option.splits)
  show ?thesis
  proof (cases "newStatus \<in> set allowed")
    case True
    with t have "newStatus \<in> set status_enum"
      by (auto simp: spec_transition_def status_enum_def)
    with assms have v: "validate (this\<lparr>status := newStatus\<rparr>) = [] \<longleftrightarrow> validate this = []"
      by (simp add: validate_def rule_def)
    show ?thesis
    proof (cases "validate this = []")
      case True
      with v \<open>newStatus \<in> set allowed\<close> a
      have "updateStatus newStatus this = (None, pre_save (this\<lparr>status := newStatus\<rparr>))"
        by (simp add: updateStatus_def save_def Let_def)
      with True \<open>newStatus \<in> set allowed\<close> t show ?thesis
        by (simp add: hook)
    next
      case False
      with v \<open>newStatus \<in> set allowed\<close> a
      have "updateStatus newStatus this =
              (Some (ValidationError (validate (this\<lparr>status := newStatus\<rparr>))),
               this\<lparr>status := newStatus\<rparr>)"
        by (simp add: updateStatus_def save_def Let_def)
      with False \<open>newStatus \<in> set allowed\<close> t show ?thesis
        by simp
    qed
  next
    case False
    with a have "updateStatus newStatus this =
                   (Some (InvalidTransition (status this) newStatus), this)"
      by (simp add: updateStatus_def)
    with False t show ?thesis by simp
  qed
qed

theorem updateStatus_follows_transition_table_witness:
  "status ex_inquiry \<in> set status_enum
   \<and> validate ex_inquiry = []
   \<and> spec_transition (status ex_inquiry) ''cancelled''
   \<and> fst (updateStatus ''cancelled'' ex_inquiry) = None
   \<and> status (snd (updateStatus ''cancelled'' ex_inquiry)) = ''cancelled''
   \<and> \<not> spec_transition (status ex_inquiry) ''completed''
   \<and> fst (updateStatus ''completed'' ex_inquiry) \<noteq> None
   \<and> updateStatus ''completed'' ex_inquiry =
       (Some (InvalidTransition ''pending'' ''completed''), ex_inquiry)
   \<and> status (ex_inquiry\<lparr>message := ''hi''\<rparr>) \<in> set status_enum
   \<and> validate (ex_inquiry\<lparr>message := ''hi''\<rparr>) \<noteq> []
   \<and> spec_transition (status (ex_inquiry\<lparr>message := ''hi''\<rparr>)) ''cancelled''
   \<and> fst (updateStatus ''cancelled'' (ex_inquiry\<lparr>message := ''hi''\<rparr>)) =
       Some (ValidationError [''message''])"
proof -
  have h: "status ex_inquiry \<in> set status_enum"
    by (simp add: ex_inquiry_def status_enum_def)
  have h': "status (ex_inquiry\<lparr>message := ''hi''\<rparr>) \<in> set status_enum"
    by (simp add: ex_inquiry_def status_enum_def)
  have a: "spec_transition (status ex_inquiry) ''cancelled''"
    by (simp add: ex_inquiry_def spec_transition_def)
  have a': "spec_transition (status (ex_inquiry\<lparr>message := ''hi''\<rparr>)) ''cancelled''"
    by (simp add: ex_inquiry_def spec_transition_def)
  have b: "\<not> spec_transition (status ex_inquiry) ''completed''"
    by (simp add: ex_inquiry_def spec_transition_def)
  have s: "status ex_inquiry = ''pending''"
    by (simp add: ex_inquiry_def)
  have n: "validate (ex_inquiry\<lparr>message := ''hi''\<rparr>) \<noteq> []"
    by code_simp
  have e: "fst (updateStatus ''cancelled'' (ex_inquiry\<lparr>message := ''hi''\<rparr>)) =
             Some (ValidationError [''message''])"
    by code_simp
  show ?thesis
    using h h' a a' b s n e ex_inquiry_valid
      updateStatus_follows_transition_table [OF h, of "''cancelled''"]
      updateStatus_follows_transition_table [OF h, of "''completed''"]
      updateStatus_follows_transition_table [OF h', of "''cancelled''"]
    by simp
qed

subsection \<open>Responding\<close>

text \<open>
  Claim C2, as amended. On a status other than \<open>'pending'\<close> \<open>respondToInquiry\<close> throws
  the already-responded error and the inquiry is as it was. On an inquiry that passes
  the validators of its schema, as every inquiry that has been saved does, it succeeds
  if and only if the status is \<open>'pending'\<close> and the response is within the bounds of
  the schema (a message of at most 1000 characters and a delivery time of at most 100
  after trimming, a price, if any, from 0 to 1000000); on the status \<open>'pending'\<close> it
  fails only with the validation error of \<open>save\<close>, and nothing is written then. On
  success the status is \<open>'responded'\<close>, the response is the trimmed message and
  delivery time with the rounded price, \<open>response.respondedAt\<close> is the clock reading of
  the call, and \<open>createdAt\<close> is as it was: \<open>respondedAt\<close> is at least \<open>createdAt\<close>
  exactly when the clock reading of the call is, the code comparing them nowhere. The
  handler of \<open>PATCH /:id/respond\<close>, on a body that passes its validation chain and a
  valid inquiry of the caller's, answers 400 on a status other than \<open>'pending'\<close>, with
  the store as it was, and otherwise 200 with the answered inquiry, which takes the
  place of the inquiry with this id in the store (the store holding one inquiry for
  an id), every other inquiry staying as it was.
\<close>

theorem respond_iff_pending:
  "(status this \<noteq> ''pending'' \<longrightarrow>
      respondToInquiry now rd this = (Some AlreadyResponded, this))
 \<and> (validate this = [] \<longrightarrow>
      (fst (respondToInquiry now rd this) = None \<longleftrightarrow>
         status this = ''pending''
       \<and> length (trim (rd_message rd)) \<le> 1000
       \<and> (case rd_price rd of None \<Rightarrow> True | Some p \<Rightarrow> 0 \<le> p \<and> p \<le> 1000000)
       \<and> length (trim (rd_deliveryTime rd)) \<le> 100))
       \<and> (fst (respondToInquiry now rd this) = None \<longrightarrow>
            snd (respondToInquiry now rd this) =
              this\<lparr>status := ''responded'',
                   response := Some \<lparr>response_message = trim (rd_message rd),
                                     price = map_option round_price (rd_price rd),
                                     deliveryTime = trim (rd_deliveryTime rd),
                                     respondedAt = now\<rparr>,
                   quantity := of_int \<lfloor>quantity this\<rfloor>,
                   expectedPrice := map_option round_price (expectedPrice this)\<rparr>
          \<and> status (snd (respondToInquiry now rd this)) = ''responded''
          \<and> map_option respondedAt (response (snd (respondToInquiry now rd this))) = Some now
          \<and> createdAt (snd (respondToInquiry now rd this)) = createdAt this)
       \<and> (status this = ''pending'' \<and> fst (respondToInquiry now rd this) \<noteq> None \<longrightarrow>
            (\<exists>paths. paths \<noteq> [] \<and> fst (respondToInquiry now rd this) = Some (ValidationError paths)))
       \<and> (validate this = [] \<and> is_hex24 id_param \<and> fst (respondInquiryValidation b) = []
            \<and> Inquiry_findOne s id_param (user_id user) = Some this
            \<and> distinct (map inquiry_id (inquiries s)) \<longrightarrow>
          patch_respond now user id_param b s =
            (let this' =
                   this\<lparr>status := ''responded'',
                        response := Some \<lparr>response_message = trim (rb_message b),
                                          price = Some (round_price (rb_price b)),
                                          deliveryTime = trim (rb_deliveryTime b),
                                          respondedAt = now\<rparr>,
                        quantity := of_int \<lfloor>quantity this\<rfloor>,
                        expectedPrice := map_option round_price (expectedPrice this)\<rparr>
             in if status this = ''pending''
                then (Response 200 (InquiryBody this'),
                      s\<lparr>inquiries :=
                          map (\<lambda>i. if inquiry_id i = id_param then this' else i) (inquiries s)\<rparr>)
                else (Response 400 (ErrorBody E_AlreadyResponded), s)))"
proof -
  let ?r = "\<lparr>response_message = trim (rd_message rd), price = rd_price rd,
             deliveryTime = trim (rd_deliveryTime rd), respondedAt = now\<rparr>"
  let ?d = "this\<lparr>status := ''responded'', response := Some ?r\<rparr>"
  let ?ok = "length (trim (rd_message rd)) \<le> 1000
          \<and> (case rd_price rd of None \<Rightarrow> True | Some p \<Rightarrow> 0 \<le> p \<and> p \<le> 1000000)
          \<and> length (trim (rd_deliveryTime rd)) \<le> 100"
  have rule_iff: "rule c f = [] \<longleftrightarrow> c" for c f
    by (simp add: rule_def)
  have answer_valid:
    "validate (x\<lparr>status := ''responded'', response := Some r\<rparr>) = [] \<longleftrightarrow>
       length (response_message r) \<le> 1000
     \<and> (case price r of None \<Rightarrow> True | Some p \<Rightarrow> 0 \<le> p \<and> p \<le> 1000000)
     \<and> length (deliveryTime r) \<le> 100"
    if "validate x = []" for x r
    using that by (simp add: validate_def rule_iff status_enum_def split: option.split)
  have hook: "pre_save x =
                x\<lparr>quantity := of_int \<lfloor>quantity x\<rfloor>,
                  expectedPrice := map_option round_price (expectedPrice x),
                  response := map_option (\<lambda>r. r\<lparr>price := map_option round_price (price r)\<rparr>)
                                (response x)\<rparr>" for x
    by (simp add: pre_save_def Let_def Math_floor_def round_price_0 split: option.splits)
  have v: "validate ?d = [] \<longleftrightarrow> ?ok" if "validate this = []"
    using answer_valid [OF that, of ?r] by simp
  have other: "status this \<noteq> ''pending'' \<Longrightarrow>
                 respondToInquiry now rd this = (Some AlreadyResponded, this)"
    by (simp add: respondToInquiry_def)
  have good: "status this = ''pending'' \<Longrightarrow> validate ?d = [] \<Longrightarrow>
                respondToInquiry now rd this = (None, pre_save ?d)"
    by (simp add: respondToInquiry_def save_def Let_def)
  have bad: "status this = ''pending'' \<Longrightarrow> validate ?d \<noteq> [] \<Longrightarrow>
               respondToInquiry now rd this = (Some (ValidationError (validate ?d)), ?d)"
    by (simp add: respondToInquiry_def save_def Let_def)
  have iff': "fst (respondToInquiry now rd this) = None \<longleftrightarrow>
                status this = ''pending'' \<and> validate ?d = []"
  proof (cases "status this = ''pending''")
    case False
    then show ?thesis by (simp add: other)
  next
    case True
    show ?thesis
    proof (cases "validate ?d = []")
      case True
      with \<open>status this = ''pending''\<close> show ?thesis by (simp add: good)
    next
      case False
      with \<open>status this = ''pending''\<close> show ?thesis by (simp add: bad)
    qed
  qed
  have iff: "fst (respondToInquiry now rd this) = None \<longleftrightarrow> status this = ''pending'' \<and> ?ok"
    if "validate this = []"
    unfolding iff' v [OF that] ..
  have result: "fst (respondToInquiry now rd this) = None \<Longrightarrow>
                  snd (respondToInquiry now rd this) =
                    this\<lparr>status := ''responded'',
                         response := Some \<lparr>response_message = trim (rd_message rd),
                                           price = map_option round_price (rd_price rd),
                                           deliveryTime = trim (rd_deliveryTime rd),
                                           respondedAt = now\<rparr>,
                         quantity := of_int \<lfloor>quantity this\<rfloor>,
                         expectedPrice := map_option round_price (expectedPrice this)\<rparr>"
  proof -
    assume "fst (respondToInquiry now rd this) = None"
    with iff' have "status this = ''pending''" and "validate ?d = []" by simp_all
    then have "respondToInquiry now rd this = (None, pre_save ?d)" by (rule good)
    then show ?thesis by (simp add: hook)
  qed
  have written: "write_back x xs = map (\<lambda>i. if inquiry_id i = inquiry_id x then x else i) xs"
    if "distinct (map inquiry_id xs)" for x xs
    using that
  proof (induction xs)
    case Nil
    then show ?case by simp
  next
    case (Cons y ys)
    show ?case
    proof (cases "inquiry_id y = inquiry_id x")
      case True
      with Cons.prems have "inquiry_id x \<notin> inquiry_id ` set ys"
        by simp
      then have "list_all (\<lambda>i. inquiry_id i \<noteq> inquiry_id x) ys"
        unfolding list_all_iff by (metis imageI)
      then have "map (\<lambda>i. if inquiry_id i = inquiry_id x then x else i) ys = ys"
        by (induction ys) auto
      with True show ?thesis by simp
    next
      case False
      with Cons show ?thesis by simp
    qed
  qed
  have handler: "patch_respond now user id_param b s =
            (let this' =
                   this\<lparr>status := ''responded'',
                        response := Some \<lparr>response_message = trim (rb_message b),
                                          price = Some (round_price (rb_price b)),
                                          deliveryTime = trim (rb_deliveryTime b),
                                          respondedAt = now\<rparr>,
                        quantity := of_int \<lfloor>quantity this\<rfloor>,
                        expectedPrice := map_option round_price (expectedPrice this)\<rparr>
             in if status this = ''pending''
                then (Response 200 (InquiryBody this'),
                      s\<lparr>inquiries :=
                          map (\<lambda>i. if inquiry_id i = id_param then this' else i) (inquiries s)\<rparr>)
                else (Response 400 (ErrorBody E_AlreadyResponded), s))"
    if h: "validate this = [] \<and> is_hex24 id_param \<and> fst (respondInquiryValidation b) = []
            \<and> Inquiry_findOne s id_param (user_id user) = Some this
            \<and> distinct (map inquiry_id (inquiries s))"
  proof -
    let ?b = "snd (respondInquiryValidation b)"
    let ?a = "this\<lparr>status := ''responded'',
                   response := Some \<lparr>response_message = trim (rb_message ?b),
                                     price = Some (rb_price ?b),
                                     deliveryTime = trim (rb_deliveryTime ?b),
                                     respondedAt = now\<rparr>\<rparr>"
    have b': "rb_message ?b = trim (rb_message b)" "rb_price ?b = rb_price b"
        "rb_deliveryTime ?b = trim (rb_deliveryTime b)"
      by (simp_all add: respondInquiryValidation_def)
    from h have rules: "length (rb_message b) \<le> 1000" "0 \<le> rb_price b \<and> rb_price b \<le> 1000000"
        "length (rb_deliveryTime b) \<le> 100"
      by (simp_all add: respondInquiryValidation_def rule_iff)
    have m: "length (trim (rb_message ?b)) \<le> 1000"
      using rules(1) length_trim [of "rb_message b"] by (simp add: b' trim_idem)
    have d: "length (trim (rb_deliveryTime ?b)) \<le> 100"
      using rules(3) length_trim [of "rb_deliveryTime b"] by (simp add: b' trim_idem)
    have p: "0 \<le> rb_price ?b \<and> rb_price ?b \<le> 1000000"
      using rules(2) by (simp add: b')
    from h have valid: "validate this = []" ..
    from h have hex: "is_hex24 id_param"
      and found: "Inquiry_findOne s id_param (user_id user) = Some this"
      and dist: "distinct (map inquiry_id (inquiries s))"
      by simp_all
    have "find (\<lambda>i. inquiry_id i = id_param \<and> seller i = user_id user) (inquiries s) = Some this"
      using found by (simp add: Inquiry_findOne_def)
    then have id: "inquiry_id this = id_param"
      by (induction "inquiries s" arbitrary: s) (auto split: if_splits simp: find_Some_iff)
    have va: "validate ?a = []"
      using m p d by (simp add: answer_valid [OF valid])
    have "patch_respond now user id_param b s = respond_handler now user id_param ?b s"
      using h by (simp add: patch_respond_def case_prod_beta)
    also have "\<dots> =
                 (if status this = ''pending''
                  then (Response 200 (InquiryBody (pre_save ?a)),
                        s\<lparr>inquiries := write_back (pre_save ?a) (inquiries s)\<rparr>)
                  else (Response 400 (ErrorBody E_AlreadyResponded), s))"
      using hex found va by (simp add: respond_handler_def save_def)
    finally show ?thesis
      by (simp add: Let_def b' trim_idem hook written [OF dist] id)
  qed
  show ?thesis
  proof (intro conjI impI)
    assume "status this \<noteq> ''pending''"
    then show "respondToInquiry now rd this = (Some AlreadyResponded, this)"
      by (rule other)
  next
    assume "validate this = []"
    then show "fst (respondToInquiry now rd this) = None \<longleftrightarrow> status this = ''pending'' \<and> ?ok"
      by (rule iff)
  next
    assume "fst (respondToInquiry now rd this) = None"
    then show "snd (respondToInquiry now rd this) =
                    this\<lparr>status := ''responded'',
                         response := Some \<lparr>response_message = trim (rd_message rd),
                                           price = map_option round_price (rd_price rd),
                                           deliveryTime = trim (rd_deliveryTime rd),
                                           respondedAt = now\<rparr>,
                         quantity := of_int \<lfloor>quantity this\<rfloor>,
                         expectedPrice := map_option round_price (expectedPrice this)\<rparr>"
      by (rule result)
  next
    assume "fst (respondToInquiry now rd this) = None"
    then show "status (snd (respondToInquiry now rd this)) = ''responded''"
      by (simp add: result)
  next
    assume "fst (respondToInquiry now rd this) = None"
    then show "map_option respondedAt (response (snd (respondToInquiry now rd this))) = Some now"
      by (simp add: result)
  next
    assume "fst (respondToInquiry now rd this) = None"
    then show "createdAt (snd (respondToInquiry now rd this)) = createdAt this"
      by (simp add: result)
  next
    assume a: "status this = ''pending'' \<and> fst (respondToInquiry now rd this) \<noteq> None"
    with iff' have n: "validate ?d \<noteq> []" by blast
    from a have "status this = ''pending''" ..
    then have "respondToInquiry now rd this = (Some (ValidationError (validate ?d)), ?d)"
      using n by (rule bad)
    with n show "\<exists>paths. paths \<noteq> [] \<and>
                 fst (respondToInquiry now rd this) = Some (ValidationError paths)"
      by simp
  next
    assume "validate this = [] \<and> is_hex24 id_param \<and> fst (respondInquiryValidation b) = []
            \<and> Inquiry_findOne s id_param (user_id user) = Some this
            \<and> distinct (map inquiry_id (inquiries s))"
    then show "patch_respond now user id_param b s =
            (let this' =
                   this\<lparr>status := ''responded'',
                        response := Some \<lparr>response_message = trim (rb_message b),
                                          price = Some (round_price (rb_price b)),
                                          deliveryTime = trim (rb_deliveryTime b),
                                          respondedAt = now\<rparr>,
                        quantity := of_int \<lfloor>quantity this\<rfloor>,
                        expectedPrice := map_option round_price (expectedPrice this)\<rparr>
             in if status this = ''pending''
                then (Response 200 (InquiryBody this'),
                      s\<lparr>inquiries :=
                          map (\<lambda>i. if inquiry_id i = id_param then this' else i) (inquiries s)\<rparr>)
                else (Response 400 (ErrorBody E_AlreadyResponded), s))"
      by (rule handler)
  qed
qed

theorem respond_iff_pending_witness:
  "validate ex_inquiry = []
 \<and> status ex_inquiry = ''pending''
 \<and> length (trim (rd_message ex_responseData)) \<le> 1000
 \<and> (case rd_price ex_responseData of None \<Rightarrow> True | Some p \<Rightarrow> 0 \<le> p \<and> p \<le> 1000000)
 \<and> length (trim (rd_deliveryTime ex_responseData)) \<le> 100
 \<and> respondToInquiry 2000 ex_responseData ex_inquiry = (None, ex_responded_inquiry)
 \<and> validate ex_responded_inquiry = []
 \<and> status ex_responded_inquiry \<noteq> ''pending''
 \<and> respondToInquiry 3000 ex_responseData ex_responded_inquiry =
     (Some AlreadyResponded, ex_responded_inquiry)
 \<and> is_hex24 ''64b7f0c2a1d3e4f5a6b7c8d9''
 \<and> fst (respondInquiryValidation ex_respond_body) = []
 \<and> Inquiry_findOne ex_store1 ''64b7f0c2a1d3e4f5a6b7c8d9'' (user_id ex_seller) = Some ex_inquiry
 \<and> distinct (map inquiry_id (inquiries ex_store1))
 \<and> patch_respond 2000 ex_seller ''64b7f0c2a1d3e4f5a6b7c8d9'' ex_respond_body ex_store1 =
     (Response 200 (InquiryBody ex_responded_inquiry), ex_store2)
 \<and> Inquiry_findOne ex_store2 ''64b7f0c2a1d3e4f5a6b7c8d9'' (user_id ex_seller) =
     Some ex_responded_inquiry
 \<and> distinct (map inquiry_id (inquiries ex_store2))
 \<and> patch_respond 3000 ex_seller ''64b7f0c2a1d3e4f5a6b7c8d9'' ex_respond_body ex_store2 =
     (Response 400 (ErrorBody E_AlreadyResponded), ex_store2)"
proof -
  have p: "status ex_inquiry = ''pending''" by (simp add: ex_inquiry_def)
  have q: "status ex_responded_inquiry \<noteq> ''pending''" by (simp add: ex_responded_inquiry_def)
  have bounds: "length (trim (rd_message ex_responseData)) \<le> 1000
      \<and> (case rd_price ex_responseData of None \<Rightarrow> True | Some p \<Rightarrow> 0 \<le> p \<and> p \<le> 1000000)
      \<and> length (trim (rd_deliveryTime ex_responseData)) \<le> 100"
    by code_simp
  have d1: "distinct (map inquiry_id (inquiries ex_store1))" by (simp add: ex_store1_def)
  have d2: "distinct (map inquiry_id (inquiries ex_store2))" by (simp add: ex_store2_def)
  have answered:
    "ex_inquiry\<lparr>status := ''responded'',
                response := Some \<lparr>response_message = trim (rd_message ex_responseData),
                                  price = map_option round_price (rd_price ex_responseData),
                                  deliveryTime = trim (rd_deliveryTime ex_responseData),
                                  respondedAt = 2000\<rparr>,
                quantity := of_int \<lfloor>quantity ex_inquiry\<rfloor>,
                expectedPrice := map_option round_price (expectedPrice ex_inquiry)\<rparr> =
     ex_responded_inquiry"
    by code_simp
  have answered_body:
    "ex_inquiry\<lparr>status := ''responded'',
                response := Some \<lparr>response_message = trim (rb_message ex_respond_body),
                                  price = Some (round_price (rb_price ex_respond_body)),
                                  deliveryTime = trim (rb_deliveryTime ex_respond_body),
                                  respondedAt = 2000\<rparr>,
                quantity := of_int \<lfloor>quantity ex_inquiry\<rfloor>,
                expectedPrice := map_option round_price (expectedPrice ex_inquiry)\<rparr> =
     ex_responded_inquiry"
    by code_simp
  have stored: "ex_store1\<lparr>inquiries :=
                    map (\<lambda>i. if inquiry_id i = ''64b7f0c2a1d3e4f5a6b7c8d9''
                             then ex_responded_inquiry else i) (inquiries ex_store1)\<rparr> = ex_store2"
    by (simp add: ex_store1_def ex_store2_def ex_inquiry_def)
  note first = respond_iff_pending [of ex_inquiry 2000 ex_responseData
        "''64b7f0c2a1d3e4f5a6b7c8d9''" ex_respond_body ex_store1 ex_seller]
  note second = respond_iff_pending [of ex_responded_inquiry 3000 ex_responseData
        "''64b7f0c2a1d3e4f5a6b7c8d9''" ex_respond_body ex_store2 ex_seller]
  from first ex_inquiry_valid p bounds
  have ok: "fst (respondToInquiry 2000 ex_responseData ex_inquiry) = None"
    by blast
  with first have "snd (respondToInquiry 2000 ex_responseData ex_inquiry) = ex_responded_inquiry"
    by (simp add: answered)
  with ok have a: "respondToInquiry 2000 ex_responseData ex_inquiry = (None, ex_responded_inquiry)"
    by (simp add: prod_eq_iff)
  from second q have b: "respondToInquiry 3000 ex_responseData ex_responded_inquiry =
                           (Some AlreadyResponded, ex_responded_inquiry)"
    by blast
  from first ex_inquiry_valid ex_hex ex_valid ex_find d1 p
  have c: "patch_respond 2000 ex_seller ''64b7f0c2a1d3e4f5a6b7c8d9'' ex_respond_body ex_store1 =
             (Response 200 (InquiryBody ex_responded_inquiry), ex_store2)"
    by (simp add: Let_def answered_body stored)
  from second ex_responded_inquiry_valid ex_hex ex_valid ex_find_responded d2 q
  have d: "patch_respond 3000 ex_seller ''64b7f0c2a1d3e4f5a6b7c8d9'' ex_respond_body ex_store2 =
             (Response 400 (ErrorBody E_AlreadyResponded), ex_store2)"
    by (simp add: Let_def)
  have answer: "respondToInquiry 2000 ex_responseData ex_inquiry = (None, ex_responded_inquiry)"
    by code_simp
  have stored_answer:
    "patch_respond 2000 ex_seller ''64b7f0c2a1d3e4f5a6b7c8d9'' ex_respond_body ex_store1 =
       (Response 200 (InquiryBody ex_responded_inquiry), ex_store2)"
    by code_simp
  have second_answer:
    "patch_respond 3000 ex_seller ''64b7f0c2a1d3e4f5a6b7c8d9'' ex_respond_body ex_store2 =
       (Response 400 (ErrorBody E_AlreadyResponded), ex_store2)"
    by code_simp
  show ?thesis
    using ex_inquiry_valid p bounds a ex_responded_inquiry_valid q b ex_hex ex_valid ex_find d1 c
      ex_find_responded d2 d answer stored_answer second_answer
    by simp
qed

text \<open>
  Claim C2 as stated fails. The inquiry of the scenario is pending, and an answer with
  the price -5 does not succeed: \<open>respondToInquiry\<close> throws the validation error of
  \<open>response.price\<close>, and the route answers 400 with the validation error of \<open>price\<close>,
  the store as it was. And an answer at a clock reading of 999 to the inquiry created
  at 1000 succeeds with \<open>respondedAt\<close> 999, which is before \<open>createdAt\<close>.
\<close>

theorem respond_pending_counterexample:
  "validate ex_inquiry = []
 \<and> status ex_inquiry = ''pending''
 \<and> respondToInquiry 2000 ex_negative_responseData ex_inquiry =
     (Some (ValidationError [''response.price'']),
      ex_inquiry\<lparr>status := ''responded'',
                 response := Some \<lparr>response_message = ''Can deliver in 3 days at this rate'',
                                   price = Some (- 5), deliveryTime = ''3 days'',
                                   respondedAt = 2000\<rparr>\<rparr>)
 \<and> fst (respondToInquiry 2000 ex_negative_responseData ex_inquiry) \<noteq> None
 \<and> Inquiry_findOne ex_store1 ''64b7f0c2a1d3e4f5a6b7c8d9'' (user_id ex_seller) = Some ex_inquiry
 \<and> patch_respond 2000 ex_seller ''64b7f0c2a1d3e4f5a6b7c8d9'' ex_negative_respond_body ex_store1 =
     (Response 400 (ValidationErrors [''price'']), ex_store1)
 \<and> createdAt ex_inquiry = 1000
 \<and> fst (respondToInquiry 999 ex_responseData ex_inquiry) = None
 \<and> map_option respondedAt (response (snd (respondToInquiry 999 ex_responseData ex_inquiry))) =
     Some 999
 \<and> createdAt (snd (respondToInquiry 999 ex_responseData ex_inquiry)) = 1000"
  by code_simp

subsection \<open>The CSRF check\<close>

text \<open>
  Claim C3 says that every mutating request outside the allow-list is rejected with 403
  unless it carries a valid CSRF token, the inquiry and product endpoints in
  particular. The code mounts \<open>validateCsrf\<close> on \<open>/auth\<close> and on \<open>/api/users\<close> only: a
  \<open>POST /api/inquiries\<close> that carries no token passes every check on its way to the
  handler, whatever \<open>tokens.verify\<close> is, while the same token-less request to the
  users router is answered 403.
\<close>

theorem post_inquiry_skips_csrf:
  "app_csrf verify ex_post_inquiry_request = Next
   \<and> app_csrf verify ex_patch_profile_request = Respond (Response 403 (ErrorBody E_CsrfMissing))"
  by (simp add: app_csrf_def mounts_def mounted_at_def startsWith_def path_in_mount_def
        ex_post_inquiry_request_def ex_patch_profile_request_def route_middleware_def
        validateCsrf_def skipPaths_def js_or_def falsy_def)

text \<open>No request under \<open>/api/inquiries\<close> or \<open>/api/products\<close> meets the check at all.\<close>

lemma inquiries_never_checked:
  "mounted_at ''/api/inquiries'' (req_path req) \<or> mounted_at ''/api/products'' (req_path req)
     \<Longrightarrow> app_csrf verify req = Next"
  by (auto simp: app_csrf_def find_mount_inquiries find_mount_products route_middleware_def)

subsection \<open>Creating an inquiry\<close>

text \<open>
  Claim C4, as amended. The checks of \<open>POST /\<close> run in a fixed order. A body that breaks
  a rule of the validation chain is answered 400 with the validation errors, whatever
  the stock and the seller. For a body that passes: a product that is missing or
  inactive gives 404; otherwise a quantity above the stock gives the insufficient-stock
  error; otherwise a product of the caller's own gives the self-inquiry error. In each
  case the store is as it was.
\<close>

theorem create_checks_in_order:
  "(fst (createInquiryValidation b) \<noteq> [] \<longrightarrow>
      post_inquiry now new_id user b s =
        (Response 400 (ValidationErrors (fst (createInquiryValidation b))), s))
 \<and> (fst (createInquiryValidation b) = [] \<and> Product_findOne s (cb_productId b) = None \<longrightarrow>
      post_inquiry now new_id user b s = (Response 404 (ErrorBody E_ProductNotFound), s))
 \<and> (fst (createInquiryValidation b) = [] \<and> Product_findOne s (cb_productId b) = Some p
      \<and> stock p < cb_quantity b \<longrightarrow>
      post_inquiry now new_id user b s =
        (Response 400 (ErrorBody (E_InsufficientStock (stock p))), s))
 \<and> (fst (createInquiryValidation b) = [] \<and> Product_findOne s (cb_productId b) = Some p
      \<and> \<not> stock p < cb_quantity b \<and> product_seller p = user_id user \<longrightarrow>
      post_inquiry now new_id user b s = (Response 400 (ErrorBody E_SelfInquiryForbidden), s))"
  by (simp add: post_inquiry_def case_prod_beta create_handler_def)

theorem create_checks_in_order_witness:
  "fst (createInquiryValidation ex_short_body) \<noteq> []
 \<and> post_inquiry 1000 ''64b7f0c2a1d3e4f5a6b7c8d9'' ex_buyer ex_short_body ex_store0 =
     (Response 400 (ValidationErrors [''message'']), ex_store0)
 \<and> fst (createInquiryValidation ex_big_body) = []
 \<and> Product_findOne ex_store0 (cb_productId ex_big_body) = Some ex_product
 \<and> stock ex_product < cb_quantity ex_big_body
 \<and> post_inquiry 1000 ''64b7f0c2a1d3e4f5a6b7c8d9'' ex_buyer ex_big_body ex_store0 =
     (Response 400 (ErrorBody (E_InsufficientStock 10)), ex_store0)
 \<and> fst (createInquiryValidation ex_create_body) = []
 \<and> Product_findOne ex_store0 (cb_productId ex_create_body) = Some ex_product
 \<and> \<not> stock ex_product < cb_quantity ex_create_body
 \<and> product_seller ex_product = user_id ex_seller
 \<and> post_inquiry 1000 ''64b7f0c2a1d3e4f5a6b7c8d9'' ex_seller ex_create_body ex_store0 =
     (Response 400 (ErrorBody E_SelfInquiryForbidden), ex_store0)
 \<and> Product_findOne \<lparr>products = [], inquiries = []\<rparr> (cb_productId ex_create_body) = None
 \<and> post_inquiry 1000 ''64b7f0c2a1d3e4f5a6b7c8d9'' ex_buyer ex_create_body
       \<lparr>products = [], inquiries = []\<rparr> =
     (Response 404 (ErrorBody E_ProductNotFound), \<lparr>products = [], inquiries = []\<rparr>)"
proof -
  have a: "fst (createInquiryValidation ex_short_body) \<noteq> []"
    by (simp add: ex_short_invalid)
  have b: "Product_findOne ex_store0 (cb_productId ex_big_body) = Some ex_product"
    by (simp add: ex_big_body_def ex_find_product_id)
  have c: "stock ex_product < cb_quantity ex_big_body"
    by (simp add: ex_product_def ex_big_body_def)
  have d: "fst (createInquiryValidation ex_create_body) = []"
    by (simp add: ex_create_valid)
  have e: "\<not> stock ex_product < cb_quantity ex_create_body"
    by (simp add: ex_product_def ex_create_body_def)
  have f: "product_seller ex_product = user_id ex_seller"
    by (simp add: ex_product_def ex_seller_def)
  have g: "Product_findOne \<lparr>products = [], inquiries = []\<rparr> (cb_productId ex_create_body) = None"
    by (simp add: Product_findOne_def)
  have s: "stock ex_product = 10"
    by (simp add: ex_product_def)
  show ?thesis
    using a b c d e f g s ex_short_invalid ex_big_valid ex_find_product
      create_checks_in_order [of ex_short_body 1000 "''64b7f0c2a1d3e4f5a6b7c8d9''" ex_buyer
        ex_store0 ex_product]
      create_checks_in_order [of ex_big_body 1000 "''64b7f0c2a1d3e4f5a6b7c8d9''" ex_buyer
        ex_store0 ex_product]
      create_checks_in_order [of ex_create_body 1000 "''64b7f0c2a1d3e4f5a6b7c8d9''" ex_seller
        ex_store0 ex_product]
      create_checks_in_order [of ex_create_body 1000 "''64b7f0c2a1d3e4f5a6b7c8d9''" ex_buyer
        "\<lparr>products = [], inquiries = []\<rparr>" ex_product]
    by simp
qed

text \<open>
  Claim C4 as stated fails: with a message that is too short, a quantity above the
  stock is answered with the validation errors and not with the insufficient-stock
  error; and with valid fields, a quantity above the stock of the caller's own product
  is answered with the insufficient-stock error and not with the self-inquiry error.
\<close>

theorem create_validation_first_counterexample:
  "Product_findOne ex_store0 (cb_productId ex_short_body) = Some ex_product
   \<and> stock ex_product < cb_quantity ex_short_body
   \<and> post_inquiry 1000 ''64b7f0c2a1d3e4f5a6b7c8d9'' ex_buyer ex_short_body ex_store0 =
       (Response 400 (ValidationErrors [''message'']), ex_store0)
   \<and> fst (post_inquiry 1000 ''64b7f0c2a1d3e4f5a6b7c8d9'' ex_buyer ex_short_body ex_store0) \<noteq>
       Response 400 (ErrorBody (E_InsufficientStock (stock ex_product)))
   \<and> Product_findOne ex_store0 (cb_productId ex_big_body) = Some ex_product
   \<and> product_seller ex_product = user_id ex_seller
   \<and> post_inquiry 1000 ''64b7f0c2a1d3e4f5a6b7c8d9'' ex_seller ex_big_body ex_store0 =
       (Response 400 (ErrorBody (E_InsufficientStock 10)), ex_store0)
   \<and> fst (post_inquiry 1000 ''64b7f0c2a1d3e4f5a6b7c8d9'' ex_seller ex_big_body ex_store0) \<noteq>
       Response 400 (ErrorBody E_SelfInquiryForbidden)"
  by (simp add: post_inquiry_def case_prod_beta ex_short_invalid ex_big_valid create_handler_def
        ex_find_product_id)
     (simp add: ex_short_body_def ex_big_body_def ex_find_product_id ex_product_def ex_seller_def)

text \<open>
  Claim C7. Every create-inquiry call that succeeds (201) leaves the products, and so
  the stock of the referenced product, as they were, and adds one inquiry, the one it
  returns, whose status is \<open>'pending'\<close>.
\<close>

theorem create_reserves_no_stock:
  assumes "post_inquiry now new_id user b s = (Response 201 bd, s')"
  shows "products s' = products s
       \<and> map stock (products s') = map stock (products s)
       \<and> Product_findOne s' (cb_productId b) = Product_findOne s (cb_productId b)
       \<and> (\<exists>inq. bd = InquiryBody inq \<and> status inq = ''pending''
              \<and> inquiries s' = inquiries s @ [inq])"
proof -
  obtain errs b' where v: "createInquiryValidation b = (errs, b')"
    by (cases "createInquiryValidation b")
  with assms have h: "create_handler now new_id user b' s = (Response 201 bd, s')"
    by (simp add: post_inquiry_def split: if_splits)
  from create_handler_cases [OF h]
  obtain inq where i: "bd = InquiryBody inq" "status inq = ''pending''"
      "s' = s\<lparr>inquiries := inquiries s @ [inq]\<rparr>"
    by auto
  then show ?thesis
    by (simp add: Product_findOne_def)
qed

theorem create_reserves_no_stock_witness:
  "post_inquiry 1000 ''64b7f0c2a1d3e4f5a6b7c8d9'' ex_buyer ex_create_body ex_store0 =
     (Response 201 (InquiryBody ex_inquiry), ex_store1)
   \<and> map stock (products ex_store1) = [10]
   \<and> map stock (products ex_store0) = [10]
   \<and> status ex_inquiry = ''pending''
   \<and> inquiries ex_store1 = inquiries ex_store0 @ [ex_inquiry]"
  using ex_create create_reserves_no_stock [OF ex_create]
  by (simp add: ex_store0_def ex_product_def)

subsection \<open>The rate limit\<close>

text \<open>
  Claim C8 says that a client gets the limit of its class: 100 requests in a window for
  the api class, and the next one is answered 429. On the way of a request to the
  inquiries router \<open>apiLimiter\<close> stands twice, once in server.js and once on the route,
  so every request adds two hits: of 51 requests in one window the first 50 are
  admitted and the 51st is answered 429. Where the limiter stands once, as on the
  routes of the users router, 100 requests are admitted and the 101st is not, and a
  request after the window has expired is admitted again. \<open>authLimiter\<close> stands twice
  on the way to \<open>/auth/login\<close>, with \<open>validateCsrf\<close> between the two: of 6 failed
  attempts that pass the CSRF check the 6th is answered 429.
\<close>

theorem inquiries_rate_limit_is_halved:
  "count_list (middleware_on_path ''/api/inquiries'') ApiLimiter = 2
 \<and> limited_requests apiLimiter (count_list (middleware_on_path ''/api/inquiries'') ApiLimiter)
       (replicate 51 (1000, True)) \<lparr>hits = 0, resetTime = 0\<rparr> =
     replicate 50 True @ [False]
 \<and> count_list (middleware_on_path ''/api/users/profile'') ApiLimiter = 1
 \<and> limited_requests apiLimiter (count_list (middleware_on_path ''/api/users/profile'') ApiLimiter)
       (replicate 101 (1000, True) @ [(1000 + windowMs apiLimiter, True)])
       \<lparr>hits = 0, resetTime = 0\<rparr> =
     replicate 100 True @ [False, True]
 \<and> count_list (middleware_on_path ''/auth/login'') AuthLimiter = 2
 \<and> limited_requests authLimiter (count_list (middleware_on_path ''/auth/login'') AuthLimiter)
       (replicate 6 (1000, False)) \<lparr>hits = 0, resetTime = 0\<rparr> =
     replicate 5 True @ [False]"
proof -
  have two: "count_list (middleware_on_path ''/api/inquiries'') ApiLimiter = 2"
    by (simp add: middleware_on_path_def mounts_def mounted_at_def startsWith_def
          route_middleware_def path_in_mount_def)
  have one: "count_list (middleware_on_path ''/api/users/profile'') ApiLimiter = 1"
    by (simp add: middleware_on_path_def mounts_def mounted_at_def startsWith_def
          route_middleware_def path_in_mount_def)
  have halved: "limited_requests apiLimiter 2 (replicate 51 (1000, True))
                  \<lparr>hits = 0, resetTime = 0\<rparr> = replicate 50 True @ [False]"
    by code_simp
  have full: "limited_requests apiLimiter 1
                (replicate 101 (1000, True) @ [(1000 + windowMs apiLimiter, True)])
                \<lparr>hits = 0, resetTime = 0\<rparr> = replicate 100 True @ [False, True]"
    by code_simp
  have login: "count_list (middleware_on_path ''/auth/login'') AuthLimiter = 2"
    by (simp add: middleware_on_path_def mounts_def mounted_at_def startsWith_def
          route_middleware_def path_in_mount_def)
  have failed: "limited_requests authLimiter 2 (replicate 6 (1000, False))
                  \<lparr>hits = 0, resetTime = 0\<rparr> = replicate 5 True @ [False]"
    by code_simp
  show ?thesis
    by (simp only: two one login halved full failed)
qed

subsection \<open>Numbers on save\<close>

text \<open>
  Claim C9. Every write of an inquiry goes through \<open>save\<close>, which writes the quantity
  floored and each price (\<open>expectedPrice\<close>, \<open>response.price\<close>) as
  \<open>Math.round(p * 100) / 100\<close> of the price \<open>p\<close>, an undefined price staying undefined.
  So the inquiry that \<open>POST /\<close> stores on a 201 has the floor of the quantity of the
  body and the rounded expected price of the body; the inquiry that
  \<open>PATCH /:id/respond\<close> stores on a 200 has the rounded price of the body as its
  \<open>response.price\<close>, and the floored quantity and rounded expected price of the inquiry
  it loaded; and \<open>respondToInquiry\<close> and \<open>updateStatus\<close>, when they succeed, leave the
  numbers so. The rounded price is the Number nearest to \<open>k / 100\<close> for the integer \<open>k\<close>
  nearest to the product of \<open>p\<close> and 100, a tie going up (round half up); for a price
  within the bounds of the schema it differs from \<open>p\<close> by at most 0.005 (and a rounding
  error below a billionth). In particular a respond call with the price 199.995 saves
  \<open>response.price\<close> as 200.
\<close>

theorem save_normalizes_numbers:
  "(save this = Inr d \<longrightarrow>
      quantity d = of_int \<lfloor>quantity this\<rfloor>
    \<and> expectedPrice d = map_option round_price (expectedPrice this)
    \<and> response d =
        map_option (\<lambda>r. r\<lparr>price := map_option round_price (price r)\<rparr>) (response this))
 \<and> (post_inquiry now new_id user cb s = (Response 201 bd, s') \<longrightarrow>
      (\<exists>inq. bd = InquiryBody inq \<and> inquiries s' = inquiries s @ [inq]
           \<and> quantity inq = of_int \<lfloor>cb_quantity cb\<rfloor>
           \<and> expectedPrice inq = map_option round_price (cb_expectedPrice cb)))
 \<and> (patch_respond now user id_param rb s = (Response 200 bd, s') \<longrightarrow>
      (\<exists>loaded inq. Inquiry_findOne s id_param (user_id user) = Some loaded
           \<and> bd = InquiryBody inq \<and> inq \<in> set (inquiries s')
           \<and> quantity inq = of_int \<lfloor>quantity loaded\<rfloor>
           \<and> expectedPrice inq = map_option round_price (expectedPrice loaded)
           \<and> map_option price (response inq) = Some (Some (round_price (rb_price rb)))))
 \<and> (respondToInquiry now rd this = (None, d) \<longrightarrow>
      quantity d = of_int \<lfloor>quantity this\<rfloor>
    \<and> expectedPrice d = map_option round_price (expectedPrice this)
    \<and> map_option price (response d) = Some (map_option round_price (rd_price rd)))
 \<and> (updateStatus newStatus this = (None, d) \<longrightarrow>
      quantity d = of_int \<lfloor>quantity this\<rfloor>
    \<and> expectedPrice d = map_option round_price (expectedPrice this)
    \<and> response d =
        map_option (\<lambda>r. r\<lparr>price := map_option round_price (price r)\<rparr>) (response this))
 \<and> (\<exists>k::int. round_price p = fl (of_int k / 100)
        \<and> of_int k - 1 / 2 \<le> js_times p 100 \<and> js_times p 100 < of_int k + 1 / 2)
 \<and> (0 \<le> p \<and> p \<le> 1000000 \<longrightarrow> \<bar>round_price p - p\<bar> \<le> 1 / 200 + 1 / 1000000000)
 \<and> (validate this = [] \<and> status this = ''pending'' \<longrightarrow>
       response (snd (respondToInquiry now ex_responseData this)) =
         Some \<lparr>response_message = ''Can deliver in 3 days at this rate'', price = Some 200,
               deliveryTime = ''3 days'', respondedAt = now\<rparr>)"
proof -
  have hook: "pre_save x =
                x\<lparr>quantity := of_int \<lfloor>quantity x\<rfloor>,
                  expectedPrice := map_option round_price (expectedPrice x),
                  response := map_option (\<lambda>r. r\<lparr>price := map_option round_price (price r)\<rparr>)
                                (response x)\<rparr>" for x
    by (simp add: pre_save_def Let_def Math_floor_def round_price_0 split: option.splits)
  have saved: "x = pre_save y" if "save y = Inr x" for x y
    using that by (simp add: save_def split: if_splits)
  have member: "x \<in> set (write_back x xs)" if "y \<in> set xs" and "inquiry_id y = inquiry_id x"
    for x y xs
    using that by (induction xs) auto
  show ?thesis
  proof (intro conjI impI)
    assume "save this = Inr d"
    then have d: "d = pre_save this" by (rule saved)
    show "quantity d = of_int \<lfloor>quantity this\<rfloor>"
      by (simp add: d hook)
    show "expectedPrice d = map_option round_price (expectedPrice this)"
      by (simp add: d hook)
    show "response d =
            map_option (\<lambda>r. r\<lparr>price := map_option round_price (price r)\<rparr>) (response this)"
      by (simp add: d hook)
  next
    assume a: "post_inquiry now new_id user cb s = (Response 201 bd, s')"
    let ?b = "snd (createInquiryValidation cb)"
    have b': "cb_quantity ?b = cb_quantity cb" "cb_expectedPrice ?b = cb_expectedPrice cb"
      by (simp_all add: createInquiryValidation_def)
    from a have h: "create_handler now new_id user ?b s = (Response 201 bd, s')"
      by (simp add: post_inquiry_def case_prod_beta split: if_splits)
    then obtain pr where pr: "Product_findOne s (cb_productId ?b) = Some pr"
      by (cases "Product_findOne s (cb_productId ?b)") (simp_all add: create_handler_def)
    let ?c = "Inquiry_create now new_id (cb_productId ?b) (user_id user) (product_seller pr)
                (cb_quantity ?b) (cb_message ?b) (cb_expectedPrice ?b) (phone user, email user)"
    from h pr obtain inq where c: "?c = Inr inq" and r: "bd = InquiryBody inq"
        "s' = s\<lparr>inquiries := inquiries s @ [inq]\<rparr>"
      by (cases ?c) (simp_all add: create_handler_def split: if_splits)
    from c have "inq = pre_save
                   \<lparr>inquiry_id = new_id, product = cb_productId ?b, buyer = user_id user,
                    seller = product_seller pr, quantity = cb_quantity ?b,
                    message = trim (cb_message ?b), status = ''pending'',
                    buyerContact = (map_option trim (phone user),
                                    map_option (\<lambda>e. toLowerCase (trim e)) (email user)),
                    response = None, expectedPrice = cb_expectedPrice ?b,
                    urgency = ''medium'', createdAt = now\<rparr>"
      by (intro saved) (simp add: Inquiry_create_def)
    then have "quantity inq = of_int \<lfloor>cb_quantity cb\<rfloor>"
      and "expectedPrice inq = map_option round_price (cb_expectedPrice cb)"
      by (simp_all add: hook b')
    with r show "\<exists>inq. bd = InquiryBody inq \<and> inquiries s' = inquiries s @ [inq]
             \<and> quantity inq = of_int \<lfloor>cb_quantity cb\<rfloor>
             \<and> expectedPrice inq = map_option round_price (cb_expectedPrice cb)"
      by simp
  next
    assume a: "patch_respond now user id_param rb s = (Response 200 bd, s')"
    let ?b = "snd (respondInquiryValidation rb)"
    have p: "rb_price ?b = rb_price rb"
      by (simp add: respondInquiryValidation_def)
    from a have h: "respond_handler now user id_param ?b s = (Response 200 bd, s')"
      by (simp add: patch_respond_def case_prod_beta split: if_splits)
    then obtain loaded where l: "Inquiry_findOne s id_param (user_id user) = Some loaded"
      by (cases "Inquiry_findOne s id_param (user_id user)")
         (simp_all add: respond_handler_def split: if_splits)
    let ?a = "loaded\<lparr>status := ''responded'',
                     response := Some \<lparr>response_message = trim (rb_message ?b),
                                       price = Some (rb_price ?b),
                                       deliveryTime = trim (rb_deliveryTime ?b),
                                       respondedAt = now\<rparr>\<rparr>"
    from h l obtain inq where c: "save ?a = Inr inq" and r: "bd = InquiryBody inq"
        "s' = s\<lparr>inquiries := write_back inq (inquiries s)\<rparr>"
      by (cases "save ?a") (simp_all add: respond_handler_def split: if_splits)
    from c have i: "inq = pre_save ?a" by (rule saved)
    from l have "find (\<lambda>i. inquiry_id i = id_param \<and> seller i = user_id user) (inquiries s) =
                   Some loaded"
      by (simp add: Inquiry_findOne_def)
    then have "loaded \<in> set (inquiries s)"
      by (auto simp: find_Some_iff)
    moreover have "inquiry_id loaded = inquiry_id inq"
      by (simp add: i hook)
    ultimately have "inq \<in> set (write_back inq (inquiries s))"
      by (rule member)
    moreover have "quantity inq = of_int \<lfloor>quantity loaded\<rfloor>"
      and "expectedPrice inq = map_option round_price (expectedPrice loaded)"
      and "map_option price (response inq) = Some (Some (round_price (rb_price rb)))"
      by (simp_all add: i hook p)
    ultimately show "\<exists>loaded inq. Inquiry_findOne s id_param (user_id user) = Some loaded
             \<and> bd = InquiryBody inq \<and> inq \<in> set (inquiries s')
             \<and> quantity inq = of_int \<lfloor>quantity loaded\<rfloor>
             \<and> expectedPrice inq = map_option round_price (expectedPrice loaded)
             \<and> map_option price (response inq) = Some (Some (round_price (rb_price rb)))"
      using l r by simp
  next
    assume "respondToInquiry now rd this = (None, d)"
    then have "save (this\<lparr>status := ''responded'',
                          response := Some \<lparr>response_message = trim (rd_message rd),
                                            price = rd_price rd,
                                            deliveryTime = trim (rd_deliveryTime rd),
                                            respondedAt = now\<rparr>\<rparr>) = Inr d"
      by (simp add: respondToInquiry_def Let_def split: if_splits sum.splits)
    note d = saved [OF this]
    show "quantity d = of_int \<lfloor>quantity this\<rfloor>"
      by (simp add: d hook)
    show "expectedPrice d = map_option round_price (expectedPrice this)"
      by (simp add: d hook)
    show "map_option price (response d) = Some (map_option round_price (rd_price rd))"
      by (simp add: d hook)
  next
    assume "updateStatus newStatus this = (None, d)"
    then have "save (this\<lparr>status := newStatus\<rparr>) = Inr d"
      by (simp add: updateStatus_def Let_def split: option.splits if_splits sum.splits)
    note d = saved [OF this]
    show "quantity d = of_int \<lfloor>quantity this\<rfloor>"
      by (simp add: d hook)
    show "expectedPrice d = map_option round_price (expectedPrice this)"
      by (simp add: d hook)
    show "response d =
            map_option (\<lambda>r. r\<lparr>price := map_option round_price (price r)\<rparr>) (response this)"
      by (simp add: d hook)
  next
    show "\<exists>k::int. round_price p = fl (of_int k / 100)
            \<and> of_int k - 1 / 2 \<le> js_times p 100 \<and> js_times p 100 < of_int k + 1 / 2"
      by (rule round_price_nearest)
  next
    assume "0 \<le> p \<and> p \<le> 1000000"
    then show "\<bar>round_price p - p\<bar> \<le> 1 / 200 + 1 / 1000000000"
      by (intro round_price_near) simp_all
  next
    assume a: "validate this = [] \<and> status this = ''pending''"
    let ?d = "this\<lparr>status := ''responded'',
                   response := Some \<lparr>response_message = trim (rd_message ex_responseData),
                                     price = rd_price ex_responseData,
                                     deliveryTime = trim (rd_deliveryTime ex_responseData),
                                     respondedAt = now\<rparr>\<rparr>"
    have t: "trim (rd_message ex_responseData) = ''Can deliver in 3 days at this rate''"
        "trim (rd_deliveryTime ex_responseData) = ''3 days''"
        "rd_price ex_responseData = Some (decimal 199995 3)"
      by (simp_all add: ex_responseData_def trim_def is_space_def)
    from a have "validate this = []" ..
    then have "validate ?d = []"
      using ex_rate by (simp add: validate_def rule_def t status_enum_def split: option.splits)
    with a have "respondToInquiry now ex_responseData this = (None, pre_save ?d)"
      by (simp add: respondToInquiry_def save_def Let_def)
    then show "response (snd (respondToInquiry now ex_responseData this)) =
           Some \<lparr>response_message = ''Can deliver in 3 days at this rate'', price = Some 200,
                 deliveryTime = ''3 days'', respondedAt = now\<rparr>"
      by (simp add: hook t ex_price_rounded)
  qed
qed

theorem save_normalizes_numbers_witness:
  "validate ex_unrounded_inquiry = []
 \<and> save ex_unrounded_inquiry =
     Inr (ex_unrounded_inquiry
            \<lparr>quantity := 5, expectedPrice := Some 1,
             response := Some \<lparr>response_message = ''Can deliver in 3 days at this rate'',
                               price = Some 200, deliveryTime = ''3 days'',
                               respondedAt = 2000\<rparr>\<rparr>)
 \<and> post_inquiry 1000 ''64b7f0c2a1d3e4f5a6b7c8d9'' ex_buyer ex_priced_body ex_store0 =
     (Response 201 (InquiryBody ex_priced_inquiry),
      \<lparr>products = [ex_product], inquiries = [ex_priced_inquiry]\<rparr>)
 \<and> cb_expectedPrice ex_priced_body = Some (decimal 1005 3)
 \<and> expectedPrice ex_priced_inquiry = Some 1
 \<and> quantity ex_priced_inquiry = 5
 \<and> patch_respond 2000 ex_seller ''64b7f0c2a1d3e4f5a6b7c8d9'' ex_respond_body ex_store1 =
     (Response 200 (InquiryBody ex_responded_inquiry), ex_store2)
 \<and> rb_price ex_respond_body = decimal 199995 3
 \<and> ex_responded_inquiry \<in> set (inquiries ex_store2)
 \<and> map_option price (response ex_responded_inquiry) = Some (Some 200)
 \<and> respondToInquiry 2000 ex_responseData ex_inquiry = (None, ex_responded_inquiry)
 \<and> updateStatus ''cancelled'' ex_unrounded_inquiry =
     (None, ex_unrounded_inquiry
              \<lparr>status := ''cancelled'', quantity := 5, expectedPrice := Some 1,
               response := Some \<lparr>response_message = ''Can deliver in 3 days at this rate'',
                                 price = Some 200, deliveryTime = ''3 days'',
                                 respondedAt = 2000\<rparr>\<rparr>)
 \<and> 0 \<le> decimal 1005 3 \<and> decimal 1005 3 \<le> 1000000
 \<and> round_price (decimal 1005 3) = 1
 \<and> \<bar>1 - decimal 1005 3\<bar> \<le> 1 / 200 + 1 / 1000000000
 \<and> validate ex_inquiry = [] \<and> status ex_inquiry = ''pending''
 \<and> map_option price (response (snd (respondToInquiry 2000 ex_responseData ex_inquiry))) =
     Some (Some 200)"
proof -
  have s: "save ex_unrounded_inquiry =
     Inr (ex_unrounded_inquiry
            \<lparr>quantity := 5, expectedPrice := Some 1,
             response := Some \<lparr>response_message = ''Can deliver in 3 days at this rate'',
                               price = Some 200, deliveryTime = ''3 days'',
                               respondedAt = 2000\<rparr>\<rparr>)"
    by code_simp
  have u: "updateStatus ''cancelled'' ex_unrounded_inquiry =
     (None, ex_unrounded_inquiry
              \<lparr>status := ''cancelled'', quantity := 5, expectedPrice := Some 1,
               response := Some \<lparr>response_message = ''Can deliver in 3 days at this rate'',
                                 price = Some 200, deliveryTime = ''3 days'',
                                 respondedAt = 2000\<rparr>\<rparr>)"
    by code_simp
  have created_priced:
    "post_inquiry 1000 ''64b7f0c2a1d3e4f5a6b7c8d9'' ex_buyer ex_priced_body ex_store0 =
       (Response 201 (InquiryBody ex_priced_inquiry),
        \<lparr>products = [ex_product], inquiries = [ex_priced_inquiry]\<rparr>)"
    by code_simp
  have stored_answer:
    "patch_respond 2000 ex_seller ''64b7f0c2a1d3e4f5a6b7c8d9'' ex_respond_body ex_store1 =
       (Response 200 (InquiryBody ex_responded_inquiry), ex_store2)"
    by code_simp
  have answer: "respondToInquiry 2000 ex_responseData ex_inquiry = (None, ex_responded_inquiry)"
    by code_simp
  have f: "cb_expectedPrice ex_priced_body = Some (decimal 1005 3)"
      "expectedPrice ex_priced_inquiry = Some 1" "quantity ex_priced_inquiry = 5"
      "rb_price ex_respond_body = decimal 199995 3"
      "ex_responded_inquiry \<in> set (inquiries ex_store2)"
      "map_option price (response ex_responded_inquiry) = Some (Some 200)"
      "status ex_inquiry = ''pending''"
    by (simp_all add: ex_priced_body_def ex_priced_inquiry_def ex_respond_body_def ex_store2_def
          ex_responded_inquiry_def ex_inquiry_def)
  note created =
    save_normalizes_numbers
      [where this = ex_unrounded_inquiry
         and d = "ex_unrounded_inquiry
                    \<lparr>quantity := 5, expectedPrice := Some 1,
                     response := Some \<lparr>response_message = ''Can deliver in 3 days at this rate'',
                                       price = Some 200, deliveryTime = ''3 days'',
                                       respondedAt = 2000\<rparr>\<rparr>"
         and now = 1000 and new_id = "''64b7f0c2a1d3e4f5a6b7c8d9''" and user = ex_buyer
         and cb = ex_priced_body and s = ex_store0 and bd = "InquiryBody ex_priced_inquiry"
         and s' = "\<lparr>products = [ex_product], inquiries = [ex_priced_inquiry]\<rparr>"
         and id_param = "''64b7f0c2a1d3e4f5a6b7c8d9''" and rb = ex_respond_body
         and rd = ex_responseData and newStatus = "''cancelled''" and p = "decimal 1005 3"]
  note answered =
    save_normalizes_numbers
      [where this = ex_inquiry and d = ex_responded_inquiry
         and now = 2000 and new_id = "''64b7f0c2a1d3e4f5a6b7c8d9''" and user = ex_seller
         and cb = ex_priced_body and s = ex_store1 and bd = "InquiryBody ex_responded_inquiry"
         and s' = ex_store2
         and id_param = "''64b7f0c2a1d3e4f5a6b7c8d9''" and rb = ex_respond_body
         and rd = ex_responseData and newStatus = "''cancelled''" and p = "decimal 1005 3"]
  note cancelled =
    save_normalizes_numbers
      [where this = ex_unrounded_inquiry
         and d = "ex_unrounded_inquiry
                    \<lparr>status := ''cancelled'', quantity := 5, expectedPrice := Some 1,
                     response := Some \<lparr>response_message = ''Can deliver in 3 days at this rate'',
                                       price = Some 200, deliveryTime = ''3 days'',
                                       respondedAt = 2000\<rparr>\<rparr>"
         and now = 2000 and new_id = "''64b7f0c2a1d3e4f5a6b7c8d9''" and user = ex_seller
         and cb = ex_priced_body and s = ex_store1 and bd = "InquiryBody ex_responded_inquiry"
         and s' = ex_store2
         and id_param = "''64b7f0c2a1d3e4f5a6b7c8d9''" and rb = ex_respond_body
         and rd = ex_responseData and newStatus = "''cancelled''" and p = "decimal 1005 3"]
  from answered ex_inquiry_valid f(7)
  have r: "response (snd (respondToInquiry 2000 ex_responseData ex_inquiry)) =
             Some \<lparr>response_message = ''Can deliver in 3 days at this rate'', price = Some 200,
                   deliveryTime = ''3 days'', respondedAt = 2000\<rparr>"
    by blast
  have r': "map_option price (response (snd (respondToInquiry 2000 ex_responseData ex_inquiry))) =
              Some (Some 200)"
    by (simp add: r)
  from created ex_low_price_range
  have "\<bar>round_price (decimal 1005 3) - decimal 1005 3\<bar> \<le> 1 / 200 + 1 / 1000000000"
    by blast
  then have n: "\<bar>1 - decimal 1005 3\<bar> \<le> 1 / 200 + 1 / 1000000000"
    by (simp only: ex_low_price_rounded)
  from created s
  have "quantity (ex_unrounded_inquiry
            \<lparr>quantity := 5, expectedPrice := Some 1,
             response := Some \<lparr>response_message = ''Can deliver in 3 days at this rate'',
                               price = Some 200, deliveryTime = ''3 days'',
                               respondedAt = 2000\<rparr>\<rparr>) =
          of_int \<lfloor>quantity ex_unrounded_inquiry\<rfloor>"
    by blast
  from cancelled u
  have "expectedPrice (ex_unrounded_inquiry
              \<lparr>status := ''cancelled'', quantity := 5, expectedPrice := Some 1,
               response := Some \<lparr>response_message = ''Can deliver in 3 days at this rate'',
                                 price = Some 200, deliveryTime = ''3 days'',
                                 respondedAt = 2000\<rparr>\<rparr>) =
          map_option round_price (expectedPrice ex_unrounded_inquiry)"
    by blast
  from ex_unrounded_inquiry_valid s created_priced f(1-6) stored_answer answer u
    ex_low_price_range ex_low_price_rounded n ex_inquiry_valid f(7) r'
  show ?thesis
    by blast
qed

subsection \<open>Responding as someone else\<close>

text \<open>
  Claim C10, as amended. Let the caller of \<open>PATCH /:id/respond\<close> not be the seller of
  the inquiry with this id. If the id is well formed and the body passes the
  validation chain, the response is 404 with the not-found message. Whatever the body,
  the response is the one the same call gets when no inquiry has this id; a body
  that breaks a rule is answered 400 with the validation errors; the store is as it
  was; and the status code is never 403.
\<close>

theorem respond_by_non_seller_is_not_found:
  assumes not_seller:
    "list_all (\<lambda>i. inquiry_id i = id_param \<longrightarrow> seller i \<noteq> user_id user) (inquiries s)"
  shows "(is_hex24 id_param \<and> fst (respondInquiryValidation b) = [] \<longrightarrow>
            patch_respond now user id_param b s = (Response 404 (ErrorBody E_InquiryNotFound), s))
       \<and> (list_all (\<lambda>i. inquiry_id i \<noteq> id_param) (inquiries s2) \<longrightarrow>
            fst (patch_respond now user id_param b s2) = fst (patch_respond now user id_param b s))
       \<and> (fst (respondInquiryValidation b) \<noteq> [] \<longrightarrow>
            patch_respond now user id_param b s =
              (Response 400 (ValidationErrors (fst (respondInquiryValidation b))), s))
       \<and> snd (patch_respond now user id_param b s) = s
       \<and> status_code (fst (patch_respond now user id_param b s)) \<noteq> 403"
proof -
  have none: "Inquiry_findOne s id_param (user_id user) = None"
    using not_seller by (rule Inquiry_findOne_not_seller)
  show ?thesis
  proof (intro conjI impI)
    assume "is_hex24 id_param \<and> fst (respondInquiryValidation b) = []"
    then show "patch_respond now user id_param b s =
                 (Response 404 (ErrorBody E_InquiryNotFound), s)"
      using respond_handler_no_inquiry [OF none]
      by (simp add: patch_respond_def case_prod_beta)
  next
    assume "list_all (\<lambda>i. inquiry_id i \<noteq> id_param) (inquiries s2)"
    then have "list_all (\<lambda>i. inquiry_id i = id_param \<longrightarrow> seller i \<noteq> user_id user)
                 (inquiries s2)"
      by (simp add: list_all_iff)
    then have "Inquiry_findOne s2 id_param (user_id user) = None"
      by (rule Inquiry_findOne_not_seller)
    then show "fst (patch_respond now user id_param b s2) =
                 fst (patch_respond now user id_param b s)"
      using respond_handler_no_inquiry [OF none] respond_handler_no_inquiry [of s2 id_param user]
      by (simp add: patch_respond_def case_prod_beta)
  next
    assume "fst (respondInquiryValidation b) \<noteq> []"
    then show "patch_respond now user id_param b s =
                (Response 400 (ValidationErrors (fst (respondInquiryValidation b))), s)"
      by (simp add: patch_respond_def case_prod_beta)
  next
    show "snd (patch_respond now user id_param b s) = s"
      using respond_handler_no_inquiry [OF none]
      by (simp add: patch_respond_def case_prod_beta)
  next
    show "status_code (fst (patch_respond now user id_param b s)) \<noteq> 403"
      using status_code_patch_respond [of now user id_param b s] by auto
  qed
qed

theorem respond_by_non_seller_is_not_found_witness:
  "list_all (\<lambda>i. inquiry_id i = ''64b7f0c2a1d3e4f5a6b7c8d9'' \<longrightarrow> seller i \<noteq> user_id ex_buyer)
     (inquiries ex_store1)
 \<and> inquiries ex_store1 = [ex_inquiry]
 \<and> inquiry_id ex_inquiry = ''64b7f0c2a1d3e4f5a6b7c8d9''
 \<and> is_hex24 ''64b7f0c2a1d3e4f5a6b7c8d9''
 \<and> fst (respondInquiryValidation ex_respond_body) = []
 \<and> patch_respond 2000 ex_buyer ''64b7f0c2a1d3e4f5a6b7c8d9'' ex_respond_body ex_store1 =
     (Response 404 (ErrorBody E_InquiryNotFound), ex_store1)
 \<and> list_all (\<lambda>i. inquiry_id i \<noteq> ''64b7f0c2a1d3e4f5a6b7c8d9'') (inquiries ex_store0)
 \<and> fst (patch_respond 2000 ex_buyer ''64b7f0c2a1d3e4f5a6b7c8d9'' ex_respond_body ex_store0) =
     Response 404 (ErrorBody E_InquiryNotFound)
 \<and> fst (respondInquiryValidation ex_empty_respond_body) \<noteq> []
 \<and> patch_respond 2000 ex_buyer ''64b7f0c2a1d3e4f5a6b7c8d9'' ex_empty_respond_body ex_store1 =
     (Response 400 (ValidationErrors [''message'', ''message'']), ex_store1)"
proof -
  have h: "list_all (\<lambda>i. inquiry_id i = ''64b7f0c2a1d3e4f5a6b7c8d9'' \<longrightarrow> seller i \<noteq> user_id ex_buyer)
             (inquiries ex_store1)"
    by (simp add: ex_store1_def ex_inquiry_def ex_buyer_def)
  have i: "inquiries ex_store1 = [ex_inquiry]" by (simp add: ex_store1_def)
  have j: "inquiry_id ex_inquiry = ''64b7f0c2a1d3e4f5a6b7c8d9''" by (simp add: ex_inquiry_def)
  have k: "list_all (\<lambda>i. inquiry_id i \<noteq> ''64b7f0c2a1d3e4f5a6b7c8d9'') (inquiries ex_store0)"
    by (simp add: ex_store0_def)
  have l: "fst (respondInquiryValidation ex_empty_respond_body) \<noteq> []"
    by (simp add: ex_empty_invalid)
  show ?thesis
    using h i j k l ex_hex ex_valid ex_empty_invalid
      respond_by_non_seller_is_not_found [OF h, of ex_respond_body 2000 ex_store0]
      respond_by_non_seller_is_not_found [OF h, of ex_empty_respond_body 2000 ex_store0]
    by simp
qed

text \<open>
  Claim C10 as stated fails: a caller who is not the seller and sends an empty message
  is answered 400, not 404.
\<close>

theorem respond_by_non_seller_counterexample:
  "inquiries ex_store1 = [ex_inquiry]
   \<and> inquiry_id ex_inquiry = ''64b7f0c2a1d3e4f5a6b7c8d9''
   \<and> seller ex_inquiry \<noteq> user_id ex_buyer
   \<and> patch_respond 2000 ex_buyer ''64b7f0c2a1d3e4f5a6b7c8d9'' ex_empty_respond_body ex_store1 =
       (Response 400 (ValidationErrors [''message'', ''message'']), ex_store1)
   \<and> status_code (fst (patch_respond 2000 ex_buyer ''64b7f0c2a1d3e4f5a6b7c8d9''
         ex_empty_respond_body ex_store1)) \<noteq> 404"
  by (simp add: patch_respond_def respondInquiryValidation_def ex_empty_respond_body_def rule_def
        ex_store1_def ex_inquiry_def ex_buyer_def)

end
